theory Spec2Isabelle
  imports Main "HOL-Library.Word" "HOL-Library.AList" "HOL-Library.Multiset" "HOL-Library.Monad_Syntax"
begin

section \<open>Library functions used by core.go\<close>

text \<open>
  Go strings are byte sequences; they are modelled as \<open>string\<close> (a list of 8-bit
  characters). File contents are lists of bytes. The functions of this section stand for
  the standard-library calls of core.go; each is named after the call it models.
\<close>

type_synonym byte = "8 word"

text \<open>strings.HasPrefix, strings.Contains, strings.TrimPrefix.\<close>

fun HasPrefix :: "string \<Rightarrow> string \<Rightarrow> bool" where
  "HasPrefix s [] = True"
| "HasPrefix [] (p # ps) = False"
| "HasPrefix (c # cs) (p # ps) = (c = p \<and> HasPrefix cs ps)"

fun Contains :: "string \<Rightarrow> string \<Rightarrow> bool" where
  "Contains [] sub = (sub = [])"
| "Contains (c # cs) sub = (HasPrefix (c # cs) sub \<or> Contains cs sub)"

definition TrimPrefix :: "string \<Rightarrow> string \<Rightarrow> string" where
  "TrimPrefix s p = (if HasPrefix s p then drop (length p) s else s)"

text \<open>
  strings.ToLower and strings.EqualFold work on Unicode text: ToLower maps every letter
  that has a lower case to it, EqualFold compares two strings under Unicode simple case
  folding. The Unicode tables are not part of core.go: the two functions are parameters
  of the operations that call them.
\<close>

record strings_pkg =
  ToLower :: "string \<Rightarrow> string"
  EqualFold :: "string \<Rightarrow> string \<Rightarrow> bool"

text \<open>
  strings.ReplaceAll and strings.Split, for the one-character patterns core.go passes
  (a space, a comma). Split of the empty string is the list holding one empty string.
\<close>

definition ReplaceAll :: "string \<Rightarrow> char \<Rightarrow> string \<Rightarrow> string" where
  "ReplaceAll s old new = concat (map (\<lambda>c. if c = old then new else [c]) s)"

fun Split :: "string \<Rightarrow> char \<Rightarrow> string list" where
  "Split [] sep = [[]]"
| "Split (c # cs) sep =
     (if c = sep then [] # Split cs sep
      else (case Split cs sep of [] \<Rightarrow> [[c]] | w # ws \<Rightarrow> (c # w) # ws))"

text \<open>
  strconv.Atoi: an optional sign, then one or more decimal digits; a value outside the
  64-bit range is an error, as is anything else.
\<close>

definition digit :: "char \<Rightarrow> nat option" where
  "digit c = (let n = (of_char c :: nat) in if 48 \<le> n \<and> n \<le> 57 then Some (n - 48) else None)"

fun digits_val :: "string \<Rightarrow> nat \<Rightarrow> nat option" where
  "digits_val [] acc = Some acc"
| "digits_val (c # cs) acc =
     (case digit c of None \<Rightarrow> None | Some d \<Rightarrow> digits_val cs (10 * acc + d))"

definition Atoi :: "string \<Rightarrow> int option" where
  "Atoi s =
     (let (neg, ds) =
            (case s of
               [] \<Rightarrow> (False, [])
             | c # cs \<Rightarrow>
                 if c = CHR ''-'' then (True, cs)
                 else if c = CHR ''+'' then (False, cs)
                 else (False, s))
      in if ds = [] then None
         else (case digits_val ds 0 of
                 None \<Rightarrow> None
               | Some n \<Rightarrow>
                   (let v = (if neg then - int n else int n)
                    in if - (2 ^ 63) \<le> v \<and> v < 2 ^ 63 then Some v else None)))"

text \<open>hex.EncodeToString: two lower-case hexadecimal digits for each byte.\<close>

definition hexdigit :: "nat \<Rightarrow> char" where
  "hexdigit n = ''0123456789abcdef'' ! n"

definition EncodeToString :: "byte list \<Rightarrow> string" where
  "EncodeToString bs = concat (map (\<lambda>b. [hexdigit (unat b div 16), hexdigit (unat b mod 16)]) bs)"

text \<open>
  filepath.Join of a directory and a file name. (Go also normalises the result with
  filepath.Clean; the normal form names the same file.)
\<close>

definition Join :: "string \<Rightarrow> string \<Rightarrow> string" where
  "Join dir name = dir @ ''/'' @ name"

text \<open>
  sort.Slice with a less function: an insertion sort. Go's sort is not stable, so the
  order among elements that compare equal is one of the orders Go may produce.
\<close>

fun insert_by :: "('a \<Rightarrow> 'a \<Rightarrow> bool) \<Rightarrow> 'a \<Rightarrow> 'a list \<Rightarrow> 'a list" where
  "insert_by lt x [] = [x]"
| "insert_by lt x (y # ys) = (if lt y x then y # insert_by lt x ys else x # y # ys)"

definition sort_Slice :: "('a \<Rightarrow> 'a \<Rightarrow> bool) \<Rightarrow> 'a list \<Rightarrow> 'a list" where
  "sort_Slice lt xs = foldr (insert_by lt) xs []"

text \<open>
  time.Duration(n) * time.Second: a signed 64-bit product of nanoseconds, which wraps.
\<close>

definition seconds :: "int \<Rightarrow> int" where
  "seconds n = sint (word_of_int (n * 1000000000) :: 64 word)"

section \<open>JSON values\<close>

text \<open>
  encoding/json is modelled on JSON values: a value of type \<open>json\<close> is a document as
  json.Unmarshal reads it and as json.Marshal writes it, its strings being the decoded
  ones. A time is written as an RFC 3339 string; \<open>JTime\<close> holds its instant in
  nanoseconds (the years 0 to 9999).
\<close>

datatype json =
    JNull
  | JNum int
  | JStr string
  | JTime int
  | JArr "json list"
  | JObj "(string \<times> json) list"

text \<open>
  A Go string is any sequence of bytes; a JSON string is valid UTF-8. When json.Marshal
  writes a string it decodes it rune by rune (utf8.DecodeRuneInString) and writes, for
  each byte that does not start a valid UTF-8 sequence, the replacement character U+FFFD
  (the bytes EF BF BD). \<open>rune_len\<close> is the number of bytes of the valid sequence
  at the head of a string, 0 when there is none: one byte below 80; C2..DF and a
  continuation byte; E0..EF and two (after E0 the first is A0..BF, after ED it is 80..9F);
  F0..F4 and three (after F0 the first is 90..BF, after F4 it is 80..8F).
\<close>

definition continuation :: "nat \<Rightarrow> bool" where
  "continuation b = (128 \<le> b \<and> b \<le> 191)"

fun rune_len :: "nat list \<Rightarrow> nat" where
  "rune_len [] = 0"
| "rune_len (b0 # bs) =
     (if b0 < 128 then 1
      else if 194 \<le> b0 \<and> b0 \<le> 223 then
        (case bs of
           b1 # rest \<Rightarrow> if continuation b1 then 2 else 0
         | [] \<Rightarrow> 0)
      else if 224 \<le> b0 \<and> b0 \<le> 239 then
        (case bs of
           b1 # b2 # rest \<Rightarrow>
             if (if b0 = 224 then 160 else 128) \<le> b1 \<and> b1 \<le> (if b0 = 237 then 159 else 191)
                \<and> continuation b2
             then 3 else 0
         | _ \<Rightarrow> 0)
      else if 240 \<le> b0 \<and> b0 \<le> 244 then
        (case bs of
           b1 # b2 # b3 # rest \<Rightarrow>
             if (if b0 = 240 then 144 else 128) \<le> b1 \<and> b1 \<le> (if b0 = 244 then 143 else 191)
                \<and> continuation b2 \<and> continuation b3
             then 4 else 0
         | _ \<Rightarrow> 0)
      else 0)"

text \<open>
  The string that json.Marshal writes for a Go string. \<open>coerce_from n s\<close> copies the
  \<open>n\<close> bytes that remain of the sequence it is in, then goes on rune by rune.
\<close>

definition replacement_char :: string where
  "replacement_char = [char_of (239 :: nat), char_of (191 :: nat), char_of (189 :: nat)]"

fun coerce_from :: "nat \<Rightarrow> string \<Rightarrow> string" where
  "coerce_from n [] = []"
| "coerce_from (Suc n) (c # cs) = c # coerce_from n cs"
| "coerce_from 0 (c # cs) =
     (if rune_len (map of_char (c # cs)) = 0 then replacement_char @ coerce_from 0 cs
      else c # coerce_from (rune_len (map of_char (c # cs)) - 1) cs)"

definition utf8_coerce :: "string \<Rightarrow> string" where
  "utf8_coerce s = coerce_from 0 s"

definition marshal_string :: "string \<Rightarrow> json" where
  "marshal_string s = JStr (utf8_coerce s)"

section \<open>The data model\<close>

text \<open>struct Config (the fields the operations below read).\<close>

record Config =
  UploadDir :: string
  MetadataFile :: string
  DefaultTTL :: int
  AllowedTypes :: "string list"

text \<open>
  struct FileInfo. Times are instants in nanoseconds; a nil slice or map and an empty
  one are the same list.
\<close>

record FileInfo =
  ID :: string
  Filename :: string
  OriginalName :: string
  Size :: int
  ContentType :: string
  Checksum :: string
  UploadTime :: int
  ExpiresAt :: int
  Downloads :: int
  MaxDownloads :: int
  Password :: string
  UploaderIP :: string
  Tags :: "string list"
  Description :: string
  Path :: string
  Metadata :: "(string \<times> string) list"

text \<open>
  json.Marshal of a FileInfo, by its struct tags: every field under its tag, the
  password left out when it is empty (\<open>omitempty\<close>), every string as json.Marshal
  writes it.
\<close>

definition marshal_FileInfo :: "FileInfo \<Rightarrow> json" where
  "marshal_FileInfo r =
     JObj ([(''id'', marshal_string (ID r)),
            (''filename'', marshal_string (Filename r)),
            (''original_name'', marshal_string (OriginalName r)),
            (''size'', JNum (Size r)),
            (''content_type'', marshal_string (ContentType r)),
            (''checksum'', marshal_string (Checksum r)),
            (''upload_time'', JTime (UploadTime r)),
            (''expires_at'', JTime (ExpiresAt r)),
            (''downloads'', JNum (Downloads r)),
            (''max_downloads'', JNum (MaxDownloads r))]
           @ (if Password r = [] then [] else [(''password'', marshal_string (Password r))])
           @ [(''uploader_ip'', marshal_string (UploaderIP r)),
              (''tags'', JArr (map marshal_string (Tags r))),
              (''description'', marshal_string (Description r)),
              (''path'', marshal_string (Path r)),
              (''metadata'', JObj (map (\<lambda>(k, v). (utf8_coerce k, marshal_string v)) (Metadata r)))])"

text \<open>
  json.Unmarshal into a FileInfo: a missing key or a null leaves the zero value, a value
  of the wrong kind is an error (\<open>None\<close>), and of a repeated key the last one counts.
\<close>

definition field :: "(string \<times> json) list \<Rightarrow> string \<Rightarrow> json" where
  "field kvs k = (case map_of (rev kvs) k of None \<Rightarrow> JNull | Some j \<Rightarrow> j)"

definition as_str :: "json \<Rightarrow> string option" where
  "as_str j = (case j of JNull \<Rightarrow> Some [] | JStr s \<Rightarrow> Some s | _ \<Rightarrow> None)"

definition as_int :: "json \<Rightarrow> int option" where
  "as_int j = (case j of JNull \<Rightarrow> Some 0 | JNum n \<Rightarrow> Some n | _ \<Rightarrow> None)"

definition as_time :: "json \<Rightarrow> int option" where
  "as_time j = (case j of JNull \<Rightarrow> Some 0 | JTime t \<Rightarrow> Some t | _ \<Rightarrow> None)"

fun all_some :: "'a option list \<Rightarrow> 'a list option" where
  "all_some [] = Some []"
| "all_some (None # xs) = None"
| "all_some (Some x # xs) = (case all_some xs of None \<Rightarrow> None | Some ys \<Rightarrow> Some (x # ys))"

definition as_strs :: "json \<Rightarrow> string list option" where
  "as_strs j = (case j of JNull \<Rightarrow> Some [] | JArr js \<Rightarrow> all_some (map as_str js) | _ \<Rightarrow> None)"

definition as_map :: "json \<Rightarrow> (string \<times> string) list option" where
  "as_map j =
     (case j of
        JNull \<Rightarrow> Some []
      | JObj kvs \<Rightarrow> all_some (map (\<lambda>(k, v). map_option (Pair k) (as_str v)) kvs)
      | _ \<Rightarrow> None)"

definition unmarshal_FileInfo :: "json \<Rightarrow> FileInfo option" where
  "unmarshal_FileInfo j =
     (case j of
        JObj kvs \<Rightarrow>
          do {
            a_id \<leftarrow> as_str (field kvs ''id'');
            a_filename \<leftarrow> as_str (field kvs ''filename'');
            a_original \<leftarrow> as_str (field kvs ''original_name'');
            a_size \<leftarrow> as_int (field kvs ''size'');
            a_ctype \<leftarrow> as_str (field kvs ''content_type'');
            a_checksum \<leftarrow> as_str (field kvs ''checksum'');
            a_upload \<leftarrow> as_time (field kvs ''upload_time'');
            a_expires \<leftarrow> as_time (field kvs ''expires_at'');
            a_downloads \<leftarrow> as_int (field kvs ''downloads'');
            a_max \<leftarrow> as_int (field kvs ''max_downloads'');
            a_password \<leftarrow> as_str (field kvs ''password'');
            a_ip \<leftarrow> as_str (field kvs ''uploader_ip'');
            a_tags \<leftarrow> as_strs (field kvs ''tags'');
            a_description \<leftarrow> as_str (field kvs ''description'');
            a_path \<leftarrow> as_str (field kvs ''path'');
            a_metadata \<leftarrow> as_map (field kvs ''metadata'');
            Some \<lparr>ID = a_id, Filename = a_filename, OriginalName = a_original,
                  Size = a_size, ContentType = a_ctype, Checksum = a_checksum,
                  UploadTime = a_upload, ExpiresAt = a_expires, Downloads = a_downloads,
                  MaxDownloads = a_max, Password = a_password, UploaderIP = a_ip,
                  Tags = a_tags, Description = a_description, Path = a_path,
                  Metadata = a_metadata\<rparr>
          }
      | _ \<Rightarrow> None)"

text \<open>
  The snapshot is a map[string]*FileInfo: an object whose values are FileInfo objects. A
  null value unmarshals to a nil pointer (\<open>None\<close> as the entry); a null document to
  the nil map.
\<close>

definition unmarshal_entry :: "json \<Rightarrow> FileInfo option option" where
  "unmarshal_entry j = (case j of JNull \<Rightarrow> Some None | _ \<Rightarrow> map_option Some (unmarshal_FileInfo j))"

definition unmarshal_files :: "json \<Rightarrow> (string \<times> FileInfo option) list option" where
  "unmarshal_files j =
     (case j of
        JNull \<Rightarrow> Some []
      | JObj kvs \<Rightarrow>
          map_option (\<lambda>es. fold (\<lambda>(k, e). AList.update k e) es [])
            (all_some (map (\<lambda>(k, v). map_option (Pair k) (unmarshal_entry v)) kvs))
      | _ \<Rightarrow> None)"

definition marshal_files :: "(string \<times> FileInfo) list \<Rightarrow> json" where
  "marshal_files recs = JObj (map (\<lambda>(k, r). (utf8_coerce k, marshal_FileInfo r)) recs)"

section \<open>The process state\<close>

text \<open>
  The content of the snapshot file (config.MetadataFile): absent, text that is not JSON,
  or a JSON document. The snapshot file is taken to lie outside the upload directory.
\<close>

datatype snapshot_file = NoFile | Garbage | Doc json

text \<open>
  What an operation does, in order: the calls on fm.mutex, the disk operations (name and
  path), the changes of the map fm.files and of a record's counter, the goroutines it
  starts, and the calls of saveMetadata.
\<close>

datatype event =
    EvLock
  | EvUnlock
  | EvRLock
  | EvRUnlock
  | EvIO string string
  | EvInsert string
  | EvDelete string
  | EvIncr nat
  | EvGo string
  | EvCall string

text \<open>
  The state of the process and of the disk. \<open>files\<close> is fm.files, a
  map[string]*FileInfo: distinct ids, each with a pointer into \<open>heap\<close>, in one of the
  orders in which Go may range over the map. \<open>fresh\<close> is the next unused address.
  \<open>disk\<close> maps a path to the bytes stored there, \<open>snapshot\<close> is the content of
  the snapshot file and \<open>meta_writable\<close> says whether writing it succeeds.
  \<open>writer\<close> and \<open>readers\<close> are the state of fm.mutex (a sync.RWMutex), and
  \<open>trace\<close> lists the events so far.
\<close>

record world =
  files :: "(string \<times> nat) list"
  heap :: "nat \<Rightarrow> FileInfo"
  fresh :: nat
  disk :: "string \<rightharpoonup> byte list"
  snapshot :: snapshot_file
  meta_writable :: bool
  writer :: bool
  readers :: nat
  trace :: "event list"

text \<open>
  The result of running an operation in one goroutine: it returns, or it waits on
  fm.mutex for ever (no other goroutine is there to release it).
\<close>

datatype 'a outcome = Done 'a world | Blocked world

definition emit :: "event \<Rightarrow> world \<Rightarrow> world" where
  "emit e w = w\<lparr>trace := trace w @ [e]\<rparr>"

text \<open>The records of the registry, each with its id: the pointers followed.\<close>

definition records :: "world \<Rightarrow> (string \<times> FileInfo) list" where
  "records w = map (\<lambda>(k, p). (k, heap w p)) (files w)"

text \<open>sync.RWMutex: Lock waits for every holder, RLock for a writer.\<close>

definition mu_Lock :: "world \<Rightarrow> world option" where
  "mu_Lock w = (if writer w \<or> 0 < readers w then None else Some (emit EvLock (w\<lparr>writer := True\<rparr>)))"

definition mu_Unlock :: "world \<Rightarrow> world" where
  "mu_Unlock w = emit EvUnlock (w\<lparr>writer := False\<rparr>)"

definition mu_RLock :: "world \<Rightarrow> world option" where
  "mu_RLock w = (if writer w then None else Some (emit EvRLock (w\<lparr>readers := Suc (readers w)\<rparr>)))"

definition mu_RUnlock :: "world \<Rightarrow> world" where
  "mu_RUnlock w = emit EvRUnlock (w\<lparr>readers := readers w - 1\<rparr>)"

text \<open>The map operations \<open>fm.files[id] = p\<close> and \<open>delete(fm.files, id)\<close>.\<close>

definition map_insert :: "string \<Rightarrow> nat \<Rightarrow> world \<Rightarrow> world" where
  "map_insert k p w = emit (EvInsert k) (w\<lparr>files := AList.update k p (files w)\<rparr>)"

definition map_delete :: "string \<Rightarrow> world \<Rightarrow> world" where
  "map_delete k w = emit (EvDelete k) (w\<lparr>files := AList.delete k (files w)\<rparr>)"

text \<open>\<open>&FileInfo{...}\<close>: a new record on the heap.\<close>

definition alloc :: "FileInfo \<Rightarrow> world \<Rightarrow> nat \<times> world" where
  "alloc r w = (fresh w, w\<lparr>heap := (heap w)(fresh w := r), fresh := Suc (fresh w)\<rparr>)"

text \<open>
  The disk operations. os.Remove fails on a path that holds no file; os.Stat succeeds on
  a path that holds one; os.Create leaves an empty file; io.Copy into it writes the bytes;
  http.ServeFile sends the bytes at the path, or its own 404 when there are none.
\<close>

definition os_Remove :: "string \<Rightarrow> world \<Rightarrow> bool \<times> world" where
  "os_Remove p w = (disk w p \<noteq> None, emit (EvIO ''Remove'' p) (w\<lparr>disk := (disk w)(p := None)\<rparr>))"

definition os_Stat :: "string \<Rightarrow> world \<Rightarrow> bool \<times> world" where
  "os_Stat p w = (disk w p \<noteq> None, emit (EvIO ''Stat'' p) w)"

definition os_Create :: "string \<Rightarrow> world \<Rightarrow> world" where
  "os_Create p w = emit (EvIO ''Create'' p) (w\<lparr>disk := (disk w)(p \<mapsto> [])\<rparr>)"

definition io_Copy :: "string \<Rightarrow> byte list \<Rightarrow> world \<Rightarrow> world" where
  "io_Copy p bs w = emit (EvIO ''Copy'' p) (w\<lparr>disk := (disk w)(p \<mapsto> bs)\<rparr>)"

definition ServeFile :: "string \<Rightarrow> world \<Rightarrow> byte list option \<times> world" where
  "ServeFile p w = (disk w p, emit (EvIO ''ServeFile'' p) w)"

definition os_ReadFile_meta :: "Config \<Rightarrow> world \<Rightarrow> snapshot_file \<times> world" where
  "os_ReadFile_meta cfg w = (snapshot w, emit (EvIO ''ReadFile'' (MetadataFile cfg)) w)"

definition os_WriteFile_meta :: "Config \<Rightarrow> json \<Rightarrow> world \<Rightarrow> bool \<times> world" where
  "os_WriteFile_meta cfg j w =
     (meta_writable w,
      emit (EvIO ''WriteFile'' (MetadataFile cfg))
        (if meta_writable w then w\<lparr>snapshot := Doc j\<rparr> else w))"

section \<open>Persistence: saveMetadata, loadMetadata, NewFileManager\<close>

text \<open>
  saveMetadata: under the read lock, marshal fm.files and write the snapshot file. The
  result is whether the returned error is nil. (json.MarshalIndent is taken to succeed.)
\<close>

definition saveMetadata :: "Config \<Rightarrow> world \<Rightarrow> bool outcome" where
  "saveMetadata cfg w =
     (case mu_RLock (emit (EvCall ''saveMetadata'') w) of
        None \<Rightarrow> Blocked (emit (EvCall ''saveMetadata'') w)
      | Some w1 \<Rightarrow>
          (let data = marshal_files (records w1);
               (ok, w2) = os_WriteFile_meta cfg data w1
           in Done ok (mu_RUnlock w2)))"

text \<open>
  The loop of loadMetadata over the unmarshalled map: each entry is a record on the heap
  (json.Unmarshal allocated it), kept in validFiles when os.Stat finds its path.
\<close>

fun load_loop :: "(string \<times> FileInfo) list \<Rightarrow> (string \<times> nat) list \<Rightarrow> world \<Rightarrow> (string \<times> nat) list \<times> world" where
  "load_loop [] validFiles w = (validFiles, w)"
| "load_loop ((k, r) # es) validFiles w =
     (let (p, w1) = alloc r w;
          (found, w2) = os_Stat (Path r) w1
      in if found then load_loop es (AList.update k p validFiles) w2
         else load_loop es validFiles w2)"

text \<open>
  loadMetadata: no snapshot file, or one that does not unmarshal, leaves fm.files as it
  is. A nil entry of the unmarshalled map makes \<open>fileInfo.Path\<close> panic: the result
  \<open>None\<close>. No lock is taken.
\<close>

definition loadMetadata :: "Config \<Rightarrow> world \<Rightarrow> world option" where
  "loadMetadata cfg w =
     (let (content, w1) = os_ReadFile_meta cfg w
      in case content of
           NoFile \<Rightarrow> Some w1
         | Garbage \<Rightarrow> Some w1
         | Doc j \<Rightarrow>
             (case unmarshal_files j of
                None \<Rightarrow> Some w1
              | Some entries \<Rightarrow>
                  (case all_some (map (\<lambda>(k, e). map_option (Pair k) e) entries) of
                     None \<Rightarrow> None
                   | Some es \<Rightarrow>
                       (let (validFiles, w2) = load_loop es [] w1
                        in Some (w2\<lparr>files := validFiles\<rparr>)))))"

text \<open>
  NewFileManager: an empty fm.files, then loadMetadata. (The two goroutines it starts
  call cleanup and saveMetadata on their tickers; those are operations of their own.)
\<close>

definition NewFileManager :: "Config \<Rightarrow> world \<Rightarrow> world option" where
  "NewFileManager cfg w = loadMetadata cfg (w\<lparr>files := [], writer := False, readers := 0\<rparr>)"

section \<open>The sweeper: cleanup\<close>

definition shouldDelete :: "int \<Rightarrow> FileInfo \<Rightarrow> bool" where
  "shouldDelete now fi =
     (now > ExpiresAt fi \<or> (MaxDownloads fi > 0 \<and> Downloads fi \<ge> MaxDownloads fi))"

text \<open>
  The loop of cleanup over fm.files: for a record to delete, os.Remove of its path (an
  error is logged), then delete from the map, then the count.
\<close>

fun cleanup_loop :: "int \<Rightarrow> (string \<times> nat) list \<Rightarrow> nat \<Rightarrow> world \<Rightarrow> nat \<times> world" where
  "cleanup_loop now [] cleaned w = (cleaned, w)"
| "cleanup_loop now ((k, p) # rest) cleaned w =
     (if shouldDelete now (heap w p) then
        (let (ok, w1) = os_Remove (Path (heap w p)) w;
             w2 = map_delete k w1
         in cleanup_loop now rest (Suc cleaned) w2)
      else cleanup_loop now rest cleaned w)"

text \<open>
  cleanup: the write lock is taken and released by a deferred Unlock, so it is held
  during the whole body, the call of saveMetadata included.
\<close>

definition cleanup :: "Config \<Rightarrow> int \<Rightarrow> world \<Rightarrow> unit outcome" where
  "cleanup cfg now w =
     (case mu_Lock w of
        None \<Rightarrow> Blocked w
      | Some w1 \<Rightarrow>
          (let (cleaned, w2) = cleanup_loop now (files w1) 0 w1
           in if cleaned > 0 then
                (case saveMetadata cfg w2 of
                   Blocked w3 \<Rightarrow> Blocked w3
                 | Done ok w3 \<Rightarrow> Done () (mu_Unlock w3))
              else Done () (mu_Unlock w2)))"

section \<open>Requests and responses\<close>

text \<open>
  What the handlers read of an http.Request. \<open>FormFile\<close> is the uploaded part (file
  name, Content-Type header, bytes), \<open>FileIDs\<close> the decoded body of a bulk delete
  (\<open>None\<close> when the body does not decode).
\<close>

record request =
  Method :: string
  URLPath :: string
  Query :: "(string \<times> string) list"
  FormValues :: "(string \<times> string) list"
  Accept :: string
  Host :: string
  RemoteAddr :: string
  FormFile :: "(string \<times> string \<times> byte list) option"
  FileIDs :: "string list option"

text \<open>\<open>r.URL.Query().Get(k)\<close> and \<open>r.FormValue(k)\<close>: the empty string when absent.\<close>

definition Get :: "(string \<times> string) list \<Rightarrow> string \<Rightarrow> string" where
  "Get kvs k = (case map_of kvs k of None \<Rightarrow> [] | Some v \<Rightarrow> v)"

record UploadStats =
  TotalFiles :: int
  TotalSize :: int
  TotalDownloads :: int
  ActiveFiles :: int

text \<open>The rows handed to the HTML template of manageFiles.\<close>

record TemplateFile =
  Info :: FileInfo
  IsExpired :: bool
  NearLimit :: bool

text \<open>
  What a handler writes: an http.Error (status and message), a JSON body, the text body
  of an upload (download URL, expiry, checksum), a served file (the file name of
  Content-Disposition, Content-Type, X-Checksum, and the bytes http.ServeFile found, if
  any), a redirect, or the management page. Of the page the model keeps the rows the
  template is executed with, each with the \<open>href\<close> of its Download link as the
  template writes it, the statistics and the two search fields.
\<close>

datatype response =
    HttpError nat string
  | Json json
  | UploadText string int string
  | Served string string string "byte list option"
  | Redirect string nat
  | Html "(TemplateFile \<times> string) list" UploadStats string string

section \<open>Upload\<close>

text \<open>generateID: the hexadecimal form of 16 bytes read from crypto/rand.\<close>

definition generateID :: "byte list \<Rightarrow> string" where
  "generateID bytes = EncodeToString bytes"

text \<open>
  calculateChecksum: SHA-256 of everything the reader yields, in hexadecimal. The hash
  function of crypto/sha256 is the parameter \<open>sha256\<close>; a reader that fails is
  \<open>None\<close>, and so is the error result.
\<close>

definition calculateChecksum :: "(byte list \<Rightarrow> byte list) \<Rightarrow> byte list option \<Rightarrow> string option" where
  "calculateChecksum sha256 file =
     (case file of None \<Rightarrow> None | Some bs \<Rightarrow> Some (EncodeToString (sha256 bs)))"

text \<open>
  The I/O step of an upload that fails, if any: parsing the form, creating the temporary
  file, copying into it, reading it back for the checksum, creating the upload
  directory, creating the final file, or copying into it (after so many bytes).
\<close>

datatype upload_fault =
    NoFault
  | ParseFails
  | CreateTempFails
  | CopyTempFails
  | ChecksumFails
  | MkdirFails
  | CreateFails
  | CopyFails nat

text \<open>
  What an upload takes from its environment: the random bytes, the two readings of
  time.Now() (for UploadTime and for ExpiresAt), and the fault.
\<close>

record upload_env =
  rand_bytes :: "byte list"
  now_upload :: int
  now_expires :: int
  fault :: upload_fault

definition whole_seconds :: "int \<Rightarrow> int" where
  "whole_seconds t = t - t mod 1000000000"

text \<open>
  The blocks of uploadFile that read the form: the check of the content type against
  config.AllowedTypes (any type when the list is empty), the TTL (the default when the
  value is absent or does not parse), the download limit (0 then) and the tags (spaces
  removed, split at the commas).
\<close>

definition type_allowed :: "Config \<Rightarrow> string \<Rightarrow> bool" where
  "type_allowed cfg contentType =
     (if AllowedTypes cfg \<noteq> [] then list_ex (\<lambda>allowedType. Contains contentType allowedType) (AllowedTypes cfg)
      else True)"

definition parse_ttl :: "Config \<Rightarrow> string \<Rightarrow> int" where
  "parse_ttl cfg ttlStr =
     (if ttlStr \<noteq> [] then
        (case Atoi ttlStr of Some ttlInt \<Rightarrow> seconds ttlInt | None \<Rightarrow> DefaultTTL cfg)
      else DefaultTTL cfg)"

definition parse_max_downloads :: "string \<Rightarrow> int" where
  "parse_max_downloads maxDownloadsStr =
     (if maxDownloadsStr \<noteq> [] then
        (case Atoi maxDownloadsStr of Some md \<Rightarrow> md | None \<Rightarrow> 0)
      else 0)"

definition parse_tags :: "string \<Rightarrow> string list" where
  "parse_tags tagsStr = (if tagsStr \<noteq> [] then Split (ReplaceAll tagsStr CHR '' '' []) CHR '','' else [])"

text \<open>
  uploadFile. The bytes are copied to a temporary file and hashed; the record is built;
  the bytes are copied to their final path; then the record is put into the map under
  the write lock, and the snapshot is saved (its error is dropped).
\<close>

definition uploadFile ::
  "(byte list \<Rightarrow> byte list) \<Rightarrow> Config \<Rightarrow> upload_env \<Rightarrow> request \<Rightarrow> world \<Rightarrow> response outcome" where
  "uploadFile sha256 cfg env r w =
     (if Method r \<noteq> ''POST'' then Done (HttpError 405 ''Method not allowed'') w
      else if fault env = ParseFails then Done (HttpError 400 ''File too large'') w
      else case FormFile r of
        None \<Rightarrow> Done (HttpError 400 ''No file provided'') w
      | Some (header_Filename, contentType, content) \<Rightarrow>
          if \<not> type_allowed cfg contentType
          then Done (HttpError 400 ''File type not allowed'') w
          else
            (let ttl = parse_ttl cfg (Get (FormValues r) ''ttl'');
                 maxDownloads = parse_max_downloads (Get (FormValues r) ''max_downloads'');
                 password = Get (FormValues r) ''password'';
                 description = Get (FormValues r) ''description'';
                 tags = parse_tags (Get (FormValues r) ''tags'');
                 fileID = generateID (rand_bytes env);
                 safeFilename = ReplaceAll header_Filename CHR '' '' ''_'';
                 storedFilename = fileID @ ''_'' @ safeFilename
             in if fault env = CreateTempFails then Done (HttpError 500 ''Server error'') w
                else if fault env = CopyTempFails then Done (HttpError 500 ''Server error'') w
                else
                  (let tempFile = content;
                       fileSize = int (length content)
                   in case calculateChecksum sha256 (if fault env = ChecksumFails then None else Some tempFile) of
                        None \<Rightarrow> Done (HttpError 500 ''Server error'') w
                      | Some checksum \<Rightarrow>
                          (let fileInfo =
                                 \<lparr>ID = fileID, Filename = safeFilename, OriginalName = header_Filename,
                                  Size = fileSize, ContentType = contentType, Checksum = checksum,
                                  UploadTime = now_upload env, ExpiresAt = now_expires env + ttl,
                                  Downloads = 0, MaxDownloads = maxDownloads, Password = password,
                                  UploaderIP = RemoteAddr r, Tags = tags, Description = description,
                                  Path = Join (UploadDir cfg) storedFilename, Metadata = []\<rparr>;
                               (p, w1) = alloc fileInfo w
                           in if fault env = MkdirFails then Done (HttpError 500 ''Server error'') w1
                              else if fault env = CreateFails then Done (HttpError 500 ''Server error'') w1
                              else
                                (let w2 = os_Create (Path fileInfo) w1
                                 in case fault env of
                                      CopyFails n \<Rightarrow>
                                        Done (HttpError 500 ''Server error'')
                                          (io_Copy (Path fileInfo) (take n tempFile) w2)
                                    | _ \<Rightarrow>
                                        (let w3 = io_Copy (Path fileInfo) tempFile w2
                                         in case mu_Lock w3 of
                                              None \<Rightarrow> Blocked w3
                                            | Some w4 \<Rightarrow>
                                                (case saveMetadata cfg (mu_Unlock (map_insert fileID p w4)) of
                                                   Blocked w5 \<Rightarrow> Blocked w5
                                                 | Done ok w5 \<Rightarrow>
                                                     (let downloadURL = ''http://'' @ Host r @ ''/download/'' @ fileID
                                                      in if Contains (Accept r) ''application/json'' then
                                                           Done (Json (JObj
                                                             [(''checksum'', marshal_string (Checksum fileInfo)),
                                                              (''download_url'', marshal_string downloadURL),
                                                              (''expires_at'', JTime (whole_seconds (ExpiresAt fileInfo))),
                                                              (''filename'', marshal_string (Filename fileInfo)),
                                                              (''id'', marshal_string fileID),
                                                              (''max_downloads'', JNum (MaxDownloads fileInfo)),
                                                              (''original_name'', marshal_string (OriginalName fileInfo)),
                                                              (''size'', JNum (Size fileInfo))])) w5
                                                         else
                                                           Done (UploadText downloadURL
                                                                   (whole_seconds (ExpiresAt fileInfo))
                                                                   (Checksum fileInfo)) w5))))))))"

section \<open>Download\<close>

text \<open>
  downloadFile up to its checks (the lookup under the read lock, then, with no lock
  held, the password, the expiry and the download limit): an early response, or the
  pointer of the record to serve.
\<close>

definition downloadFile_check :: "Config \<Rightarrow> int \<Rightarrow> request \<Rightarrow> world \<Rightarrow> (response + nat) outcome" where
  "downloadFile_check cfg now r w =
     (let fileID = TrimPrefix (URLPath r) ''/download/'';
          password = Get (Query r) ''password''
      in case mu_RLock w of
           None \<Rightarrow> Blocked w
         | Some w1 \<Rightarrow>
             (let found = map_of (files w1) fileID;
                  w2 = mu_RUnlock w1
              in case found of
                   None \<Rightarrow> Done (Inl (HttpError 404 ''File not found'')) w2
                 | Some p \<Rightarrow>
                     if Password (heap w2 p) \<noteq> [] \<and> Password (heap w2 p) \<noteq> password
                     then Done (Inl (HttpError 401 ''Password required'')) w2
                     else if now > ExpiresAt (heap w2 p) then
                       (case mu_Lock w2 of
                          None \<Rightarrow> Blocked w2
                        | Some w3 \<Rightarrow>
                            (let w4 = mu_Unlock (map_delete fileID w3);
                                 (ok, w5) = os_Remove (Path (heap w4 p)) w4
                             in case saveMetadata cfg w5 of
                                  Blocked w6 \<Rightarrow> Blocked w6
                                | Done ok2 w6 \<Rightarrow> Done (Inl (HttpError 404 ''File expired'')) w6))
                     else if MaxDownloads (heap w2 p) > 0 \<and> Downloads (heap w2 p) \<ge> MaxDownloads (heap w2 p)
                     then Done (Inl (HttpError 403 ''Download limit reached'')) w2
                     else Done (Inr p) w2))"

text \<open>
  The rest of downloadFile: the counter is incremented under the write lock, the file is
  served, and saveMetadata is started in a goroutine of its own.
\<close>

definition incr_Downloads :: "nat \<Rightarrow> world \<Rightarrow> world" where
  "incr_Downloads p w =
     emit (EvIncr p) (w\<lparr>heap := (heap w)(p := (heap w p)\<lparr>Downloads := Downloads (heap w p) + 1\<rparr>)\<rparr>)"

definition downloadFile_serve :: "nat \<Rightarrow> world \<Rightarrow> response outcome" where
  "downloadFile_serve p w =
     (case mu_Lock w of
        None \<Rightarrow> Blocked w
      | Some w1 \<Rightarrow>
          (let w2 = mu_Unlock (incr_Downloads p w1);
               (body, w3) = ServeFile (Path (heap w2 p)) w2
           in Done (Served (OriginalName (heap w2 p)) (ContentType (heap w2 p)) (Checksum (heap w2 p)) body)
                (emit (EvGo ''saveMetadata'') w3)))"

definition downloadFile :: "Config \<Rightarrow> int \<Rightarrow> request \<Rightarrow> world \<Rightarrow> response outcome" where
  "downloadFile cfg now r w =
     (case downloadFile_check cfg now r w of
        Blocked w1 \<Rightarrow> Blocked w1
      | Done (Inl resp) w1 \<Rightarrow> Done resp w1
      | Done (Inr p) w1 \<Rightarrow> downloadFile_serve p w1)"

text \<open>
  Download handlers running at once, each in its goroutine. A handler holds no lock
  between its checks and its increment, so another goroutine may run there: a handler is
  at its start, past its checks with the pointer it holds, finished, or blocked, and a
  schedule names the handler that runs its next part.
\<close>

datatype handler = AtStart | Granted nat | Finished response | Waiting

definition handler_step :: "Config \<Rightarrow> int \<Rightarrow> request \<Rightarrow> handler \<Rightarrow> world \<Rightarrow> handler \<times> world" where
  "handler_step cfg now r h w =
     (case h of
        AtStart \<Rightarrow>
          (case downloadFile_check cfg now r w of
             Blocked w1 \<Rightarrow> (Waiting, w1)
           | Done (Inl resp) w1 \<Rightarrow> (Finished resp, w1)
           | Done (Inr p) w1 \<Rightarrow> (Granted p, w1))
      | Granted p \<Rightarrow>
          (case downloadFile_serve p w of
             Blocked w1 \<Rightarrow> (Waiting, w1)
           | Done resp w1 \<Rightarrow> (Finished resp, w1))
      | Finished resp \<Rightarrow> (Finished resp, w)
      | Waiting \<Rightarrow> (Waiting, w))"

fun run_schedule :: "Config \<Rightarrow> (int \<times> request) list \<Rightarrow> nat list \<Rightarrow> handler list \<Rightarrow> world \<Rightarrow> handler list \<times> world" where
  "run_schedule cfg reqs [] hs w = (hs, w)"
| "run_schedule cfg reqs (i # sched) hs w =
     (if i < length hs \<and> i < length reqs then
        (let (h, w1) = handler_step cfg (fst (reqs ! i)) (snd (reqs ! i)) (hs ! i) w
         in run_schedule cfg reqs sched (hs[i := h]) w1)
      else run_schedule cfg reqs sched hs w)"

section \<open>Search and listings\<close>

text \<open>
  The filter of searchFiles on one record: the query, when given, is looked for in the
  lower-cased Filename and Description; the tag, when given, must fold-equal one of the
  record's tags. \<open>S\<close> holds strings.ToLower and strings.EqualFold.
\<close>

definition matches :: "strings_pkg \<Rightarrow> string \<Rightarrow> string \<Rightarrow> FileInfo \<Rightarrow> bool" where
  "matches S query tag fi =
     (let m1 = (if query \<noteq> [] then
                  (Contains (ToLower S (Filename fi)) (ToLower S query)
                   \<or> Contains (ToLower S (Description fi)) (ToLower S query))
                else True);
          m2 = (if tag \<noteq> [] then m1 \<and> list_ex (\<lambda>t. EqualFold S t tag) (Tags fi) else m1)
      in m2)"

definition search_matching :: "strings_pkg \<Rightarrow> request \<Rightarrow> world \<Rightarrow> nat list" where
  "search_matching S r w =
     filter (\<lambda>p. matches S (Get (Query r) ''q'') (Get (Query r) ''tag'') (heap w p)) (map snd (files w))"

text \<open>The sort of searchFiles: by size, by downloads, or (default) by upload time, largest first.\<close>

definition search_sort :: "string \<Rightarrow> (nat \<Rightarrow> FileInfo) \<Rightarrow> nat list \<Rightarrow> nat list" where
  "search_sort sortBy h ps =
     (if sortBy = ''size'' then sort_Slice (\<lambda>a b. Size (h a) > Size (h b)) ps
      else if sortBy = ''downloads'' then sort_Slice (\<lambda>a b. Downloads (h a) > Downloads (h b)) ps
      else sort_Slice (\<lambda>a b. UploadTime (h a) > UploadTime (h b)) ps)"

text \<open>
  searchFiles: the matching records are collected under the read lock, then sorted and
  encoded. matchingFiles starts as a nil slice, which encodes as null when nothing
  matches.
\<close>

definition searchFiles :: "strings_pkg \<Rightarrow> request \<Rightarrow> world \<Rightarrow> response outcome" where
  "searchFiles S r w =
     (case mu_RLock w of
        None \<Rightarrow> Blocked w
      | Some w1 \<Rightarrow>
          (let matchingFiles = search_matching S r w1;
               w2 = mu_RUnlock w1;
               sorted = search_sort (Get (Query r) ''sort'') (heap w2) matchingFiles
           in Done (Json (if sorted = [] then JNull
                          else JArr (map (\<lambda>p. marshal_FileInfo (heap w2 p)) sorted))) w2))"

text \<open>The statistics loop of getStats and manageFiles.\<close>

fun stats_loop :: "int \<Rightarrow> FileInfo list \<Rightarrow> UploadStats \<Rightarrow> UploadStats" where
  "stats_loop now [] stats = stats"
| "stats_loop now (fi # rest) stats =
     stats_loop now rest
       (stats\<lparr>TotalFiles := TotalFiles stats + 1,
              TotalSize := TotalSize stats + Size fi,
              TotalDownloads := TotalDownloads stats + Downloads fi,
              ActiveFiles := (if now < ExpiresAt fi then ActiveFiles stats + 1 else ActiveFiles stats)\<rparr>)"

definition template_row :: "int \<Rightarrow> FileInfo \<Rightarrow> TemplateFile" where
  "template_row now f =
     (let isExpired = now > ExpiresAt f;
          nearLimit = (MaxDownloads f > 0 \<and> Downloads f \<ge> MaxDownloads f - 1)
      in \<lparr>Info = f, IsExpired = isExpired, NearLimit = (nearLimit \<and> \<not> isExpired)\<rparr>)"

text \<open>
  The management page is written by html/template, which passes every value it inserts
  through escapers chosen by the place of the value in the page. The Download link of a
  row is
  \<^verbatim>\<open>/download/{{.ID}}{{if .Password}}?password={{.Password}}{{end}}\<close>:
  the id stands in the path of a URL inside an attribute and goes through the URL
  normalizer and then the attribute escaper; the password stands in the query of that
  URL and goes through the URL escaper (which percent-encodes) and then the attribute
  escaper. The three escapers belong to html/template, not to core.go: they are
  parameters of manageFiles.
\<close>

record escapers =
  urlnormalizer :: "string \<Rightarrow> string"
  urlescaper :: "string \<Rightarrow> string"
  attrescaper :: "string \<Rightarrow> string"

definition download_link :: "escapers \<Rightarrow> FileInfo \<Rightarrow> string" where
  "download_link E f =
     ''/download/'' @ attrescaper E (urlnormalizer E (ID f))
       @ (if Password f \<noteq> [] then ''?password='' @ attrescaper E (urlescaper E (Password f)) else [])"

text \<open>
  manageFiles: every record, newest first; as JSON when the client accepts it, else as
  the management page with its statistics. The clock readings of one request are taken
  to be the same instant.
\<close>

definition manageFiles :: "escapers \<Rightarrow> int \<Rightarrow> request \<Rightarrow> world \<Rightarrow> response outcome" where
  "manageFiles E now r w =
     (case mu_RLock w of
        None \<Rightarrow> Blocked w
      | Some w1 \<Rightarrow>
          (let w2 = mu_RUnlock w1;
               sorted = sort_Slice (\<lambda>a b. UploadTime (heap w2 a) > UploadTime (heap w2 b)) (map snd (files w1))
           in if Contains (Accept r) ''application/json'' then
                Done (Json (JArr (map (\<lambda>p. marshal_FileInfo (heap w2 p)) sorted))) w2
              else
                (case mu_RLock w2 of
                   None \<Rightarrow> Blocked w2
                 | Some w3 \<Rightarrow>
                     (let stats = stats_loop now (map (\<lambda>p. heap w3 p) (map snd (files w3)))
                                    \<lparr>TotalFiles = 0, TotalSize = 0, TotalDownloads = 0, ActiveFiles = 0\<rparr>;
                          w4 = mu_RUnlock w3;
                          templateFiles = map (\<lambda>p. template_row now (heap w4 p)) sorted
                      in Done (Html (map (\<lambda>row. (row, download_link E (Info row))) templateFiles) stats
                                 (Get (Query r) ''q'') (Get (Query r) ''tag'')) w4))))"

text \<open>fileInfo: the record under the id, as JSON.\<close>

definition fileInfo :: "request \<Rightarrow> world \<Rightarrow> response outcome" where
  "fileInfo r w =
     (let fileID = TrimPrefix (URLPath r) ''/info/''
      in case mu_RLock w of
           None \<Rightarrow> Blocked w
         | Some w1 \<Rightarrow>
             (let found = map_of (files w1) fileID;
                  w2 = mu_RUnlock w1
              in case found of
                   None \<Rightarrow> Done (HttpError 404 ''File not found'') w2
                 | Some p \<Rightarrow> Done (Json (marshal_FileInfo (heap w2 p))) w2))"

text \<open>
  listFilesAPI: limit (default 50; a parsed value counts when it is in 1..1000) and
  offset (default 0; a parsed value counts when it is not negative), every record
  newest first, then the slice \<open>files[offset:end]\<close>. (The sum \<open>offset + limit\<close>
  is a 64-bit one in Go; it can wrap only for an offset beyond every slice length,
  where the page is empty either way.)
\<close>

definition parse_limit :: "string \<Rightarrow> int" where
  "parse_limit l =
     (if l \<noteq> [] then
        (case Atoi l of Some parsed \<Rightarrow> if parsed > 0 \<and> parsed \<le> 1000 then parsed else 50 | None \<Rightarrow> 50)
      else 50)"

definition parse_offset :: "string \<Rightarrow> int" where
  "parse_offset ofs =
     (if ofs \<noteq> [] then
        (case Atoi ofs of Some parsed \<Rightarrow> if parsed \<ge> 0 then parsed else 0 | None \<Rightarrow> 0)
      else 0)"

definition page :: "int \<Rightarrow> int \<Rightarrow> 'a list \<Rightarrow> 'a list" where
  "page offset limit fs =
     (let total = int (length fs);
          end0 = offset + limit;
          end1 = (if end0 > total then total else end0)
      in if offset \<ge> total then [] else take (nat (end1 - offset)) (drop (nat offset) fs))"

definition listFilesAPI :: "request \<Rightarrow> world \<Rightarrow> response outcome" where
  "listFilesAPI r w =
     (let limit = parse_limit (Get (Query r) ''limit'');
          offset = parse_offset (Get (Query r) ''offset'')
      in case mu_RLock w of
           None \<Rightarrow> Blocked w
         | Some w1 \<Rightarrow>
             (let w2 = mu_RUnlock w1;
                  sorted = sort_Slice (\<lambda>a b. UploadTime (heap w2 a) > UploadTime (heap w2 b)) (map snd (files w1))
              in Done (Json (JObj
                   [(''files'', JArr (map (\<lambda>p. marshal_FileInfo (heap w2 p)) (page offset limit sorted))),
                    (''limit'', JNum limit),
                    (''offset'', JNum offset),
                    (''total'', JNum (int (length sorted)))])) w2))"

section \<open>Deletion\<close>

text \<open>
  deleteFile: the record is taken out of the map under the write lock; with no lock
  held, its file is removed and the snapshot saved. An id that is not in the map is
  answered with 404.
\<close>

definition deleteFile :: "Config \<Rightarrow> request \<Rightarrow> world \<Rightarrow> response outcome" where
  "deleteFile cfg r w =
     (let fileID = TrimPrefix (URLPath r) ''/delete/''
      in case mu_Lock w of
           None \<Rightarrow> Blocked w
         | Some w1 \<Rightarrow>
             (case map_of (files w1) fileID of
                Some p \<Rightarrow>
                  (let w2 = mu_Unlock (map_delete fileID w1);
                       (ok, w3) = os_Remove (Path (heap w2 p)) w2
                   in case saveMetadata cfg w3 of
                        Blocked w4 \<Rightarrow> Blocked w4
                      | Done ok2 w4 \<Rightarrow>
                          if Contains (Accept r) ''application/json''
                          then Done (Json (JObj [(''status'', JStr ''deleted'')])) w4
                          else Done (Redirect ''/manage'' 303) w4)
              | None \<Rightarrow> Done (HttpError 404 ''File not found'') (mu_Unlock w1)))"

text \<open>
  The loop of bulkDelete, which runs under the write lock: an id found in the map has
  its file removed and is deleted from the map; an id not found is passed over.
\<close>

fun bulk_loop :: "string list \<Rightarrow> nat \<Rightarrow> world \<Rightarrow> nat \<times> world" where
  "bulk_loop [] deleted w = (deleted, w)"
| "bulk_loop (fileID # rest) deleted w =
     (case map_of (files w) fileID of
        Some p \<Rightarrow>
          (let (ok, w1) = os_Remove (Path (heap w p)) w;
               w2 = map_delete fileID w1
           in bulk_loop rest (Suc deleted) w2)
      | None \<Rightarrow> bulk_loop rest deleted w)"

definition bulkDelete :: "Config \<Rightarrow> request \<Rightarrow> world \<Rightarrow> response outcome" where
  "bulkDelete cfg r w =
     (if Method r \<noteq> ''POST'' then Done (HttpError 405 ''Method not allowed'') w
      else case FileIDs r of
        None \<Rightarrow> Done (HttpError 400 ''Invalid request'') w
      | Some ids \<Rightarrow>
          (case mu_Lock w of
             None \<Rightarrow> Blocked w
           | Some w1 \<Rightarrow>
               (let (deleted, w2) = bulk_loop ids 0 w1;
                    w3 = mu_Unlock w2;
                    body = Json (JObj [(''deleted'', JNum (int deleted)), (''total'', JNum (int (length ids)))])
                in if deleted > 0 then
                     (case saveMetadata cfg w3 of
                        Blocked w4 \<Rightarrow> Blocked w4
                      | Done ok w4 \<Rightarrow> Done body w4)
                   else Done body w3)))"

section \<open>Observations\<close>

text \<open>The state an outcome ends in, and the response of one that returned.\<close>

definition world_of :: "'a outcome \<Rightarrow> world" where
  "world_of out = (case out of Done x w \<Rightarrow> w | Blocked w \<Rightarrow> w)"

definition result_of :: "'a outcome \<Rightarrow> 'a option" where
  "result_of out = (case out of Done x w \<Rightarrow> Some x | Blocked w \<Rightarrow> None)"

text \<open>fm.mutex is free: the state in which a goroutine starts an operation alone.\<close>

definition mu_free :: "world \<Rightarrow> bool" where
  "mu_free w = (\<not> writer w \<and> readers w = 0)"

text \<open>
  Whether a trace holds a disk operation between a Lock or RLock and its release:
  \<open>held\<close> counts the locks held so far.
\<close>

fun io_while_locked :: "nat \<Rightarrow> event list \<Rightarrow> bool" where
  "io_while_locked held [] = False"
| "io_while_locked held (EvLock # es) = io_while_locked (Suc held) es"
| "io_while_locked held (EvRLock # es) = io_while_locked (Suc held) es"
| "io_while_locked held (EvUnlock # es) = io_while_locked (held - 1) es"
| "io_while_locked held (EvRUnlock # es) = io_while_locked (held - 1) es"
| "io_while_locked held (EvIO name path # es) = (0 < held \<or> io_while_locked held es)"
| "io_while_locked held (e # es) = io_while_locked held es"

text \<open>
  The events of the loop of cleanup over the entries \<open>fs\<close>: for each record to
  delete, the removal of its file and then the deletion from the map.
\<close>

definition sweep_events :: "int \<Rightarrow> (nat \<Rightarrow> FileInfo) \<Rightarrow> (string \<times> nat) list \<Rightarrow> event list" where
  "sweep_events now h fs =
     concat (map (\<lambda>(k, p). if shouldDelete now (h p) then [EvIO ''Remove'' (Path (h p)), EvDelete k] else []) fs)"

text \<open>The value under a key of a JSON object.\<close>

definition json_field :: "json \<Rightarrow> string \<Rightarrow> json option" where
  "json_field j k = (case j of JObj kvs \<Rightarrow> map_of kvs k | _ \<Rightarrow> None)"

text \<open>The field that the sort of searchFiles compares, by the \<open>sort\<close> parameter.\<close>

definition sort_field :: "string \<Rightarrow> FileInfo \<Rightarrow> int" where
  "sort_field sortBy fi =
     (if sortBy = ''size'' then Size fi else if sortBy = ''downloads'' then Downloads fi else UploadTime fi)"

text \<open>
  Whether a response is an http.Error, and the checksum a response carries: the field
  \<open>checksum\<close> of a JSON body, the last line of the text body of an upload, or the
  X-Checksum header of a served file.
\<close>

definition is_error :: "response \<Rightarrow> bool" where
  "is_error resp = (case resp of HttpError code msg \<Rightarrow> True | _ \<Rightarrow> False)"

definition response_checksum :: "response \<Rightarrow> string option" where
  "response_checksum resp =
     (case resp of
        Json j \<Rightarrow> (case json_field j ''checksum'' of Some (JStr c) \<Rightarrow> Some c | _ \<Rightarrow> None)
      | UploadText url expires c \<Rightarrow> Some c
      | Served name ctype c body \<Rightarrow> Some c
      | _ \<Rightarrow> None)"

text \<open>The record that uploadFile builds for an uploaded part (file name, content type, bytes).\<close>

definition upload_record ::
  "(byte list \<Rightarrow> byte list) \<Rightarrow> Config \<Rightarrow> upload_env \<Rightarrow> request \<Rightarrow> string \<Rightarrow> string \<Rightarrow> byte list \<Rightarrow> FileInfo" where
  "upload_record sha256 cfg env r fname ctype content =
     \<lparr>ID = generateID (rand_bytes env), Filename = ReplaceAll fname CHR '' '' ''_'', OriginalName = fname,
      Size = int (length content), ContentType = ctype, Checksum = EncodeToString (sha256 content),
      UploadTime = now_upload env,
      ExpiresAt = now_expires env + parse_ttl cfg (Get (FormValues r) ''ttl''),
      Downloads = 0,
      MaxDownloads = parse_max_downloads (Get (FormValues r) ''max_downloads''),
      Password = Get (FormValues r) ''password'', UploaderIP = RemoteAddr r,
      Tags = parse_tags (Get (FormValues r) ''tags''),
      Description = Get (FormValues r) ''description'',
      Path = Join (UploadDir cfg) (generateID (rand_bytes env) @ ''_'' @ ReplaceAll fname CHR '' '' ''_''),
      Metadata = []\<rparr>"






text \<open>
  A string is valid UTF-8 when json.Marshal writes it as it is. \<open>utf8_FileInfo\<close>
  says that of every string of a record, and \<open>coerce_FileInfo\<close> is the record with
  every string as json.Marshal writes it.
\<close>

definition utf8_valid :: "string \<Rightarrow> bool" where
  "utf8_valid s = (utf8_coerce s = s)"

definition utf8_FileInfo :: "FileInfo \<Rightarrow> bool" where
  "utf8_FileInfo r =
     (utf8_valid (ID r) \<and> utf8_valid (Filename r) \<and> utf8_valid (OriginalName r)
      \<and> utf8_valid (ContentType r) \<and> utf8_valid (Checksum r) \<and> utf8_valid (Password r)
      \<and> utf8_valid (UploaderIP r) \<and> list_all utf8_valid (Tags r) \<and> utf8_valid (Description r)
      \<and> utf8_valid (Path r) \<and> list_all (\<lambda>(k, v). utf8_valid k \<and> utf8_valid v) (Metadata r))"

definition coerce_FileInfo :: "FileInfo \<Rightarrow> FileInfo" where
  "coerce_FileInfo r =
     \<lparr>ID = utf8_coerce (ID r), Filename = utf8_coerce (Filename r),
      OriginalName = utf8_coerce (OriginalName r), Size = Size r,
      ContentType = utf8_coerce (ContentType r), Checksum = utf8_coerce (Checksum r),
      UploadTime = UploadTime r, ExpiresAt = ExpiresAt r, Downloads = Downloads r,
      MaxDownloads = MaxDownloads r, Password = utf8_coerce (Password r),
      UploaderIP = utf8_coerce (UploaderIP r), Tags = map utf8_coerce (Tags r),
      Description = utf8_coerce (Description r), Path = utf8_coerce (Path r),
      Metadata = map (\<lambda>(k, v). (utf8_coerce k, utf8_coerce v)) (Metadata r)\<rparr>"

text \<open>
  What the clients and the next start of the process can see of a state: the records of
  the registry, the disk and the snapshot file.
\<close>

definition observable :: "world \<Rightarrow> (string \<times> FileInfo) list \<times> (string \<rightharpoonup> byte list) \<times> snapshot_file" where
  "observable w = (records w, disk w, snapshot w)"

section \<open>Example states\<close>

definition zero_FileInfo :: FileInfo where
  "zero_FileInfo =
     \<lparr>ID = [], Filename = [], OriginalName = [], Size = 0, ContentType = [], Checksum = [],
      UploadTime = 0, ExpiresAt = 0, Downloads = 0, MaxDownloads = 0, Password = [],
      UploaderIP = [], Tags = [], Description = [], Path = [], Metadata = []\<rparr>"

definition cfg0 :: Config where
  "cfg0 = \<lparr>UploadDir = ''files'', MetadataFile = ''metadata.json'',
            DefaultTTL = 3600000000000, AllowedTypes = []\<rparr>"

text \<open>A fresh process on an empty disk.\<close>

definition w0 :: world where
  "w0 = \<lparr>files = [], heap = (\<lambda>p. zero_FileInfo), fresh = 0, disk = Map.empty, snapshot = NoFile,
          meta_writable = True, writer = False, readers = 0, trace = []\<rparr>"

definition req0 :: request where
  "req0 = \<lparr>Method = ''GET'', URLPath = [], Query = [], FormValues = [], Accept = [],
            Host = ''host'', RemoteAddr = ''10.0.0.1'', FormFile = None, FileIDs = None\<rparr>"

text \<open>
  One uploaded file: two bytes, one download allowed, password \<open>pw\<close>, expiring at
  instant 100.
\<close>

definition rec1 :: FileInfo where
  "rec1 =
     \<lparr>ID = ''ab'', Filename = ''a.txt'', OriginalName = ''a.txt'', Size = 2,
      ContentType = ''text/plain'', Checksum = ''c0'', UploadTime = 10, ExpiresAt = 100,
      Downloads = 0, MaxDownloads = 1, Password = ''pw'', UploaderIP = ''10.0.0.1'',
      Tags = [''work''], Description = ''notes'', Path = ''files/ab_a.txt'', Metadata = []\<rparr>"

definition w1 :: world where
  "w1 = w0\<lparr>files := [(''ab'', 0)], heap := (heap w0)(0 := rec1), fresh := 1,
            disk := [''files/ab_a.txt'' \<mapsto> [1, 2]]\<rparr>"

text \<open>A download request for that file, with its password.\<close>

definition dl_req :: request where
  "dl_req = req0\<lparr>URLPath := ''/download/ab'', Query := [(''password'', ''pw'')]\<rparr>"

text \<open>
  A second file: five bytes, no limit and no password, uploaded later; and a search
  request with every parameter set.
\<close>

definition rec2 :: FileInfo where
  "rec2 =
     \<lparr>ID = ''cd'', Filename = ''b.bin'', OriginalName = ''b.bin'', Size = 5,
      ContentType = ''application/octet-stream'', Checksum = ''c1'', UploadTime = 20, ExpiresAt = 300,
      Downloads = 3, MaxDownloads = 0, Password = [], UploaderIP = ''10.0.0.2'',
      Tags = [''Work'', ''x''], Description = ''big NOTES'', Path = ''files/cd_b.bin'', Metadata = []\<rparr>"

definition w2 :: world where
  "w2 = w1\<lparr>files := [(''ab'', 0), (''cd'', 1)], heap := (heap w1)(1 := rec2), fresh := 2,
            disk := (disk w1)(''files/cd_b.bin'' \<mapsto> [1, 2, 3, 4, 5])\<rparr>"

definition search_req :: request where
  "search_req = req0\<lparr>Query := [(''q'', ''NOTES''), (''tag'', ''work''), (''sort'', ''size''),
                                 (''limit'', ''1''), (''offset'', ''1'')]\<rparr>"

text \<open>
  An upload of three bytes under the name \<open>my file.txt\<close>, with the 16 random bytes
  1..16 and no fault.
\<close>

definition env1 :: upload_env where
  "env1 = \<lparr>rand_bytes = [1, 2, 3, 4, 5, 6, 7, 8, 9, 10, 11, 12, 13, 14, 15, 16],
            now_upload = 10, now_expires = 11, fault = NoFault\<rparr>"

definition up_req :: request where
  "up_req = req0\<lparr>Method := ''POST'', Accept := ''application/json'',
                    FormValues := [(''max_downloads'', ''1''), (''tags'', ''a, b'')],
                    FormFile := Some (''my file.txt'', ''text/plain'', [1, 2, 3])\<rparr>"

text \<open>
  A state before a start: the snapshot file lists both files, the disk holds only the
  first. And a request that names the first file in its path and the second in its body.
\<close>

definition w3 :: world where
  "w3 = w0\<lparr>snapshot := Doc (marshal_files [(''ab'', rec1), (''cd'', rec2)]),
            disk := [''files/ab_a.txt'' \<mapsto> [1, 2]]\<rparr>"


text \<open>
  Values of the library parameters for the examples. The strings that the examples
  search in and for are ASCII, and on ASCII strings strings.ToLower replaces the letters
  A..Z by a..z and strings.EqualFold compares the results; the ids and passwords that
  the examples render into the management page are letters and digits, which the
  escapers of html/template leave as they are. \<open>ascii_strings\<close> and
  \<open>alnum_escapers\<close> are the library functions restricted to such strings, and
  stand for them in these examples only.
\<close>

definition ascii_lower :: "char \<Rightarrow> char" where
  "ascii_lower c =
     (let n = (of_char c :: nat) in if 65 \<le> n \<and> n \<le> 90 then char_of (n + 32) else c)"

definition ascii_strings :: strings_pkg where
  "ascii_strings = \<lparr>ToLower = map ascii_lower, EqualFold = (\<lambda>s t. map ascii_lower s = map ascii_lower t)\<rparr>"

definition alnum_escapers :: escapers where
  "alnum_escapers = \<lparr>urlnormalizer = (\<lambda>s. s), urlescaper = (\<lambda>s. s), attrescaper = (\<lambda>s. s)\<rparr>"

text \<open>
  The first file again, uploaded with a password and a description that are each the one
  byte FF, which is not valid UTF-8.
\<close>

definition rec3 :: FileInfo where
  "rec3 = rec1\<lparr>Password := [char_of (255 :: nat)], Description := [char_of (255 :: nat)]\<rparr>"

definition w4 :: world where
  "w4 = w1\<lparr>heap := (heap w0)(0 := rec3)\<rparr>"

text \<open>
  A state before a start whose snapshot file lists the second file under the path of the
  first; the disk holds the first file.
\<close>

definition w5 :: world where
  "w5 = w0\<lparr>snapshot := Doc (marshal_files [(''ab'', rec1), (''cd'', rec2\<lparr>Path := ''files/ab_a.txt''\<rparr>)]),
            disk := [''files/ab_a.txt'' \<mapsto> [1, 2]]\<rparr>"

section \<open>Proofs\<close>

lemmas prims = mu_Lock_def mu_Unlock_def mu_RLock_def mu_RUnlock_def emit_def map_insert_def
  map_delete_def os_Remove_def os_Stat_def os_Create_def io_Copy_def ServeFile_def
  os_ReadFile_meta_def os_WriteFile_meta_def

subsection \<open>Removing an id that is not in the registry\<close>

lemma bulk_loop_absent:
  "\<forall>k \<in> set ids. map_of (files w) k = None \<Longrightarrow> bulk_loop ids n w = (n, w)"
  by (induction ids arbitrary: n w) auto

lemma records_emit [simp]: "records (emit e w) = records w"
  by (simp add: records_def emit_def)

lemma deleteFile_absent:
  assumes "mu_free w" and "map_of (files w) (TrimPrefix (URLPath r) ''/delete/'') = None"
  shows "deleteFile cfg r w = Done (HttpError 404 ''File not found'') (mu_Unlock (emit EvLock (w\<lparr>writer := True\<rparr>)))"
  using assms by (simp add: deleteFile_def mu_free_def mu_Lock_def emit_def)

lemma bulkDelete_absent:
  assumes "mu_free w" and "Method r = ''POST''" and "FileIDs r = Some ids"
    and "\<forall>k \<in> set ids. map_of (files w) k = None"
  shows "bulkDelete cfg r w =
           Done (Json (JObj [(''deleted'', JNum 0), (''total'', JNum (int (length ids)))]))
             (mu_Unlock (emit EvLock (w\<lparr>writer := True\<rparr>)))"
proof -
  have "bulk_loop ids 0 (emit EvLock (w\<lparr>writer := True\<rparr>)) = (0, emit EvLock (w\<lparr>writer := True\<rparr>))"
    using assms(4) by (intro bulk_loop_absent) (simp add: emit_def)
  then show ?thesis
    using assms by (simp add: bulkDelete_def mu_free_def mu_Lock_def)
qed

lemma observable_lock_unlock:
  "observable (mu_Unlock (emit EvLock (w\<lparr>writer := True\<rparr>))) = observable w"
  by (simp add: observable_def records_def mu_Unlock_def emit_def)

text \<open>
  C7, as the claim states it, fails for deleteFile: the handler answers an id that is
  not in the registry with the error 404 File not found (here on the empty registry).
\<close>

theorem C7_deleteFile_absent_is_error:
  "map_of (files w0) ''zz'' = None \<and>
   result_of (deleteFile cfg0 (req0\<lparr>URLPath := ''/delete/zz''\<rparr>) w0) = Some (HttpError 404 ''File not found'')"
  by (simp add: deleteFile_def mu_Lock_def mu_Unlock_def emit_def w0_def req0_def
      TrimPrefix_def result_of_def)

text \<open>
  C7, amended: removing an id that is not in the registry changes neither the records,
  nor the disk, nor the snapshot, and leaves the mutex free. deleteFile answers it with
  404 File not found; bulkDelete, given only such ids, with deleted = 0 and no error.
\<close>

theorem C7_remove_absent_id:
  assumes "mu_free w"
  shows "(map_of (files w) (TrimPrefix (URLPath r) ''/delete/'') = None \<longrightarrow>
            result_of (deleteFile cfg r w) = Some (HttpError 404 ''File not found'')
            \<and> observable (world_of (deleteFile cfg r w)) = observable w
            \<and> mu_free (world_of (deleteFile cfg r w)))
       \<and> (Method r = ''POST'' \<and> FileIDs r = Some ids \<and> (\<forall>k \<in> set ids. map_of (files w) k = None) \<longrightarrow>
            result_of (bulkDelete cfg r w)
              = Some (Json (JObj [(''deleted'', JNum 0), (''total'', JNum (int (length ids)))]))
            \<and> observable (world_of (bulkDelete cfg r w)) = observable w
            \<and> mu_free (world_of (bulkDelete cfg r w)))"
proof (intro conjI impI)
  assume a: "map_of (files w) (TrimPrefix (URLPath r) ''/delete/'') = None"
  note d = deleteFile_absent [OF assms a, of cfg]
  show "result_of (deleteFile cfg r w) = Some (HttpError 404 ''File not found'')"
    by (simp add: d result_of_def)
  show "observable (world_of (deleteFile cfg r w)) = observable w"
    by (simp add: d world_of_def observable_lock_unlock)
  show "mu_free (world_of (deleteFile cfg r w))"
    using assms by (simp add: d world_of_def mu_free_def mu_Unlock_def emit_def)
next
  assume a: "Method r = ''POST'' \<and> FileIDs r = Some ids \<and> (\<forall>k \<in> set ids. map_of (files w) k = None)"
  then have b: "bulkDelete cfg r w =
      Done (Json (JObj [(''deleted'', JNum 0), (''total'', JNum (int (length ids)))]))
        (mu_Unlock (emit EvLock (w\<lparr>writer := True\<rparr>)))"
    using bulkDelete_absent [OF assms, of r ids cfg] by blast
  show "result_of (bulkDelete cfg r w)
      = Some (Json (JObj [(''deleted'', JNum 0), (''total'', JNum (int (length ids)))]))"
    by (simp add: b result_of_def)
  show "observable (world_of (bulkDelete cfg r w)) = observable w"
    by (simp add: b world_of_def observable_lock_unlock)
  show "mu_free (world_of (bulkDelete cfg r w))"
    using assms by (simp add: b world_of_def mu_free_def mu_Unlock_def emit_def)
qed

theorem C7_remove_absent_id_witness:
  "mu_free w1
   \<and> map_of (files w1) (TrimPrefix (URLPath (req0\<lparr>Method := ''POST'', URLPath := ''/delete/zz'', FileIDs := Some [''zz'', ''yy'']\<rparr>)) ''/delete/'') = None
   \<and> result_of (deleteFile cfg0 (req0\<lparr>Method := ''POST'', URLPath := ''/delete/zz'', FileIDs := Some [''zz'', ''yy'']\<rparr>) w1)
       = Some (HttpError 404 ''File not found'')
   \<and> observable (world_of (deleteFile cfg0 (req0\<lparr>Method := ''POST'', URLPath := ''/delete/zz'', FileIDs := Some [''zz'', ''yy'']\<rparr>) w1)) = observable w1
   \<and> result_of (bulkDelete cfg0 (req0\<lparr>Method := ''POST'', URLPath := ''/delete/zz'', FileIDs := Some [''zz'', ''yy'']\<rparr>) w1)
       = Some (Json (JObj [(''deleted'', JNum 0), (''total'', JNum 2)]))
   \<and> observable (world_of (bulkDelete cfg0 (req0\<lparr>Method := ''POST'', URLPath := ''/delete/zz'', FileIDs := Some [''zz'', ''yy'']\<rparr>) w1)) = observable w1"
proof -
  have f: "mu_free w1"
    by (simp add: mu_free_def w1_def w0_def)
  have a: "map_of (files w1) (TrimPrefix (URLPath (req0\<lparr>Method := ''POST'', URLPath := ''/delete/zz'', FileIDs := Some [''zz'', ''yy'']\<rparr>)) ''/delete/'') = None"
    by (simp add: w1_def w0_def req0_def TrimPrefix_def)
  have b: "Method (req0\<lparr>Method := ''POST'', URLPath := ''/delete/zz'', FileIDs := Some [''zz'', ''yy'']\<rparr>) = ''POST''
      \<and> FileIDs (req0\<lparr>Method := ''POST'', URLPath := ''/delete/zz'', FileIDs := Some [''zz'', ''yy'']\<rparr>) = Some [''zz'', ''yy'']
      \<and> (\<forall>k \<in> set [''zz'', ''yy'']. map_of (files w1) k = None)"
    by (simp add: w1_def w0_def req0_def)
  show ?thesis
    using C7_remove_absent_id [OF f, of "req0\<lparr>Method := ''POST'', URLPath := ''/delete/zz'', FileIDs := Some [''zz'', ''yy'']\<rparr>" cfg0 "[''zz'', ''yy'']"] f a b
    by simp
qed

subsection \<open>The sweep\<close>










lemma sweep_events_no_call: "EvCall c \<notin> set (sweep_events now h fs)"
  by (induction fs) (auto simp: sweep_events_def)





text \<open>
  C3 fails on the code: the sweep of the expired record of \<open>w1\<close>, started with the
  mutex free, removes the file while it holds the write lock, then calls saveMetadata
  with the write lock still held, and waits for the read lock for ever: cleanup does not
  return, and the write lock stays held. saveMetadata writes the snapshot file under
  the read lock, and bulkDelete removes files under the write lock.
\<close>

theorem C3_cleanup_blocks_with_io_under_lock:
  "mu_free w1
   \<and> result_of (cleanup cfg0 200 w1) = None
   \<and> writer (world_of (cleanup cfg0 200 w1))
   \<and> io_while_locked 0 (trace (world_of (cleanup cfg0 200 w1)))
   \<and> io_while_locked 0 (trace (world_of (saveMetadata cfg0 w1)))
   \<and> io_while_locked 0 (trace (world_of (bulkDelete cfg0 (req0\<lparr>Method := ''POST'', FileIDs := Some [''ab'']\<rparr>) w1)))"
  by (simp add: cleanup_def bulkDelete_def saveMetadata_def shouldDelete_def prims w1_def w0_def rec1_def cfg0_def req0_def
      world_of_def result_of_def mu_free_def records_def marshal_files_def)

subsection \<open>Downloads, the limit and the expiry\<close>

lemma check_unfold:
  assumes "mu_free w" and "map_of (files w) (TrimPrefix (URLPath r) ''/download/'') = Some p"
    and "Password (heap w p) = [] \<or> Password (heap w p) = Get (Query r) ''password''"
    and "\<not> now > ExpiresAt (heap w p)"
  shows "downloadFile_check cfg now r w =
     (if MaxDownloads (heap w p) > 0 \<and> Downloads (heap w p) \<ge> MaxDownloads (heap w p)
      then Done (Inl (HttpError 403 ''Download limit reached'')) (mu_RUnlock (emit EvRLock (w\<lparr>readers := Suc (readers w)\<rparr>)))
      else Done (Inr p) (mu_RUnlock (emit EvRLock (w\<lparr>readers := Suc (readers w)\<rparr>))))"
  using assms
  by (auto simp: downloadFile_check_def mu_free_def mu_RLock_def mu_RUnlock_def emit_def Let_def)

lemma downloadFile_limit_reached:
  assumes "mu_free w" and "map_of (files w) (TrimPrefix (URLPath r) ''/download/'') = Some p"
    and "Password (heap w p) = [] \<or> Password (heap w p) = Get (Query r) ''password''"
    and "\<not> now > ExpiresAt (heap w p)"
    and "MaxDownloads (heap w p) > 0" and "Downloads (heap w p) \<ge> MaxDownloads (heap w p)"
  shows "result_of (downloadFile cfg now r w) = Some (HttpError 403 ''Download limit reached'')
     \<and> observable (world_of (downloadFile cfg now r w)) = observable w"
  using assms(5,6)
  by (simp add: downloadFile_def check_unfold [OF assms(1-4)] result_of_def world_of_def
      observable_def records_def mu_RUnlock_def emit_def)

lemma downloadFile_counts_one:
  assumes "mu_free w" and "map_of (files w) (TrimPrefix (URLPath r) ''/download/'') = Some p"
    and "Password (heap w p) = [] \<or> Password (heap w p) = Get (Query r) ''password''"
    and "\<not> now > ExpiresAt (heap w p)"
    and "\<not> (MaxDownloads (heap w p) > 0 \<and> Downloads (heap w p) \<ge> MaxDownloads (heap w p))"
  shows "heap (world_of (downloadFile cfg now r w)) = (heap w)(p := (heap w p)\<lparr>Downloads := Downloads (heap w p) + 1\<rparr>)
     \<and> result_of (downloadFile cfg now r w)
         = Some (Served (OriginalName (heap w p)) (ContentType (heap w p)) (Checksum (heap w p)) (disk w (Path (heap w p))))"
  using assms(1,5)
  by (simp add: downloadFile_def check_unfold [OF assms(1-4)] result_of_def world_of_def
      downloadFile_serve_def incr_Downloads_def mu_free_def prims)

text \<open>
  C1 fails on the code when two downloads of one record run at once. The record of
  \<open>w1\<close> allows one download and has none. Both handlers pass the limit check before
  either increments; then each increments under the write lock and serves the file: two
  downloads are served and the counter is 2, above the limit 1.
\<close>

theorem C1_two_downloads_pass_the_limit:
  "MaxDownloads (heap w1 0) = 1 \<and> Downloads (heap w1 0) = 0
   \<and> fst (run_schedule cfg0 [(50, dl_req), (50, dl_req)] [0, 1, 0, 1] [AtStart, AtStart] w1)
       = [Finished (Served ''a.txt'' ''text/plain'' ''c0'' (Some [1, 2])),
          Finished (Served ''a.txt'' ''text/plain'' ''c0'' (Some [1, 2]))]
   \<and> Downloads (heap (snd (run_schedule cfg0 [(50, dl_req), (50, dl_req)] [0, 1, 0, 1] [AtStart, AtStart] w1)) 0) = 2
   \<and> MaxDownloads (heap (snd (run_schedule cfg0 [(50, dl_req), (50, dl_req)] [0, 1, 0, 1] [AtStart, AtStart] w1)) 0) = 1"
  by (simp add: handler_step_def downloadFile_check_def downloadFile_serve_def incr_Downloads_def prims
      TrimPrefix_def Get_def Let_def dl_req_def req0_def w1_def w0_def rec1_def cfg0_def)

text \<open>
  When the same two handlers run one after the other, the second is refused, and a
  handler that runs alone is downloadFile.
\<close>

lemma one_after_the_other:
  "fst (run_schedule cfg0 [(50, dl_req), (50, dl_req)] [0, 0, 1, 1] [AtStart, AtStart] w1)
       = [Finished (Served ''a.txt'' ''text/plain'' ''c0'' (Some [1, 2])),
          Finished (HttpError 403 ''Download limit reached'')]
   \<and> Downloads (heap (snd (run_schedule cfg0 [(50, dl_req), (50, dl_req)] [0, 0, 1, 1] [AtStart, AtStart] w1)) 0) = 1"
  by (simp add: handler_step_def downloadFile_check_def downloadFile_serve_def incr_Downloads_def prims
      TrimPrefix_def Get_def Let_def dl_req_def req0_def w1_def w0_def rec1_def cfg0_def)

lemma handler_alone:
  "run_schedule cfg [(now, r)] [0, 0] [AtStart] w =
     (case downloadFile cfg now r w of Done resp w' \<Rightarrow> ([Finished resp], w') | Blocked w' \<Rightarrow> ([Waiting], w'))"
  by (simp add: handler_step_def downloadFile_def split: outcome.splits sum.splits)

lemma fileInfo_found:
  assumes "mu_free w" and "map_of (files w) (TrimPrefix (URLPath r) ''/info/'') = Some p"
  shows "result_of (fileInfo r w) = Some (Json (marshal_FileInfo (heap w p)))
     \<and> observable (world_of (fileInfo r w)) = observable w"
  using assms
  by (simp add: fileInfo_def result_of_def world_of_def observable_def records_def mu_free_def prims)


lemma download_expired:
  assumes "mu_free w" and "map_of (files w) (TrimPrefix (URLPath r) ''/download/'') = Some p"
    and "now > ExpiresAt (heap w p)"
    and "Password (heap w p) = [] \<or> Password (heap w p) = Get (Query r) ''password''"
  shows "result_of (downloadFile cfg now r w) = Some (HttpError 404 ''File expired'')"
    and "files (world_of (downloadFile cfg now r w)) = AList.delete (TrimPrefix (URLPath r) ''/download/'') (files w)"
    and "disk (world_of (downloadFile cfg now r w)) = (disk w)(Path (heap w p) := None)"
    and "heap (world_of (downloadFile cfg now r w)) = heap w"
    and "mu_free (world_of (downloadFile cfg now r w))"
  using assms
  by (auto simp: downloadFile_def downloadFile_check_def saveMetadata_def result_of_def world_of_def
      mu_free_def prims Let_def)

lemma download_wrong_password:
  assumes "mu_free w" and "map_of (files w) (TrimPrefix (URLPath r) ''/download/'') = Some p"
    and "Password (heap w p) \<noteq> []" and "Password (heap w p) \<noteq> Get (Query r) ''password''"
  shows "result_of (downloadFile cfg now r w) = Some (HttpError 401 ''Password required'')"
    and "observable (world_of (downloadFile cfg now r w)) = observable w"
  using assms
  by (auto simp: downloadFile_def downloadFile_check_def result_of_def world_of_def observable_def records_def
      mu_free_def prims Let_def)

subsection \<open>Strings that json.Marshal leaves as they are\<close>

lemma coerce_from_ascii: "\<forall>c \<in> set s. (of_char c :: nat) < 128 \<Longrightarrow> coerce_from 0 s = s"
  by (induction s) simp_all

lemma utf8_coerce_ascii: "\<forall>c \<in> set s. (of_char c :: nat) < 128 \<Longrightarrow> utf8_coerce s = s"
  by (simp add: utf8_coerce_def coerce_from_ascii)

lemma hexdigit_cases: "n < 16 \<Longrightarrow> hexdigit n \<in> set ''0123456789abcdef''"
  unfolding hexdigit_def by (rule nth_mem) simp

lemma hex_chars: "c \<in> set (EncodeToString bs) \<Longrightarrow> c \<in> set ''0123456789abcdef''"
proof -
  have a: "hexdigit (unat b div 16) \<in> set ''0123456789abcdef''" for b :: byte
  proof -
    have "unat b < 2 ^ 8" using unsigned_less [of b, where ?'a = nat] by simp
    then show ?thesis by (intro hexdigit_cases) simp
  qed
  have b: "hexdigit (unat b mod 16) \<in> set ''0123456789abcdef''" for b :: byte
    by (intro hexdigit_cases) simp
  assume "c \<in> set (EncodeToString bs)"
  then obtain x :: byte where "c = hexdigit (unat x div 16) \<or> c = hexdigit (unat x mod 16)"
    by (auto simp: EncodeToString_def)
  then show ?thesis
    using a [of x] b [of x] by metis
qed

lemma hex_ascii: "\<forall>c \<in> set (EncodeToString bs). (of_char c :: nat) < 128"
proof
  fix c assume "c \<in> set (EncodeToString bs)"
  then have "c \<in> set ''0123456789abcdef''" by (rule hex_chars)
  then show "(of_char c :: nat) < 128" by auto
qed


lemma utf8_coerce_hex: "utf8_coerce (EncodeToString bs) = EncodeToString bs"
  by (rule utf8_coerce_ascii) (rule hex_ascii)

lemma utf8_coerce_ff: "utf8_coerce [char_of (255 :: nat)] = replacement_char"
  by (simp add: utf8_coerce_def)

subsection \<open>What the read-only operations return\<close>

lemma coerce_from_nonempty: "s \<noteq> [] \<Longrightarrow> coerce_from n s \<noteq> []"
  by (cases s; cases n) (simp_all add: replacement_char_def)

lemma marshal_password:
  "Password fi \<noteq> [] \<Longrightarrow>
   json_field (marshal_FileInfo fi) ''password'' = Some (JStr (utf8_coerce (Password fi)))"
  by (simp add: json_field_def marshal_FileInfo_def marshal_string_def)

lemma set_insert_by: "set (insert_by lt x ys) = insert x (set ys)"
  by (induction ys) auto

lemma mset_insert_by: "mset (insert_by lt x ys) = add_mset x (mset ys)"
  by (induction ys) auto

lemma mset_sort_Slice: "mset (sort_Slice lt xs) = mset xs"
  by (induction xs) (simp_all add: sort_Slice_def mset_insert_by)

lemma set_sort_Slice: "set (sort_Slice lt xs) = set xs"
  using mset_sort_Slice [of lt xs] by (metis set_mset_mset)

lemma sorted_insert_by:
  fixes key :: "'a \<Rightarrow> int"
  assumes "sorted_wrt (\<lambda>a b. key a \<ge> key b) ys"
  shows "sorted_wrt (\<lambda>a b. key a \<ge> key b) (insert_by (\<lambda>a b. key a > key b) x ys)"
  using assms by (induction ys) (auto simp: set_insert_by)

lemma sorted_sort_Slice:
  fixes key :: "'a \<Rightarrow> int"
  shows "sorted_wrt (\<lambda>a b. key a \<ge> key b) (sort_Slice (\<lambda>a b. key a > key b) xs)"
  by (induction xs) (simp_all add: sort_Slice_def sorted_insert_by)

lemma search_sort_mset: "mset (search_sort sortBy h ps) = mset ps"
  by (simp add: search_sort_def mset_sort_Slice)

lemma search_sort_sorted:
  "sorted_wrt (\<lambda>a b. sort_field sortBy (h a) \<ge> sort_field sortBy (h b)) (search_sort sortBy h ps)"
  using sorted_sort_Slice [of "\<lambda>p. Size (h p)" ps] sorted_sort_Slice [of "\<lambda>p. Downloads (h p)" ps]
    sorted_sort_Slice [of "\<lambda>p. UploadTime (h p)" ps]
  by (simp add: search_sort_def sort_field_def)

lemma matches_iff:
  "matches S q tag fi \<longleftrightarrow>
     (q = [] \<or> Contains (ToLower S (Filename fi)) (ToLower S q) \<or> Contains (ToLower S (Description fi)) (ToLower S q))
     \<and> (tag = [] \<or> (\<exists>t \<in> set (Tags fi). EqualFold S t tag))"
  by (auto simp: matches_def Let_def list_ex_iff)

lemma searchFiles_unfold:
  assumes "mu_free w"
  shows "searchFiles S r w =
     Done (Json (if search_sort (Get (Query r) ''sort'') (heap w) (search_matching S r w) = [] then JNull
                 else JArr (map (\<lambda>p. marshal_FileInfo (heap w p))
                        (search_sort (Get (Query r) ''sort'') (heap w) (search_matching S r w)))))
       (mu_RUnlock (emit EvRLock (w\<lparr>readers := Suc (readers w)\<rparr>)))"
  using assms
  by (simp add: searchFiles_def mu_free_def mu_RLock_def mu_RUnlock_def emit_def search_matching_def Let_def)

lemma observable_rlock_runlock:
  "observable (mu_RUnlock (emit EvRLock (w\<lparr>readers := Suc (readers w)\<rparr>))) = observable w"
  by (simp add: observable_def records_def mu_RUnlock_def emit_def)

lemma mu_free_rlock_runlock:
  "mu_free w \<Longrightarrow> mu_free (mu_RUnlock (emit EvRLock (w\<lparr>readers := Suc (readers w)\<rparr>)))"
  by (simp add: mu_free_def mu_RUnlock_def emit_def)

lemma manageFiles_json:
  assumes "mu_free w" and "Contains (Accept r) ''application/json''"
  shows "manageFiles E now r w =
     Done (Json (JArr (map (\<lambda>p. marshal_FileInfo (heap w p))
        (sort_Slice (\<lambda>a b. UploadTime (heap w a) > UploadTime (heap w b)) (map snd (files w))))))
       (mu_RUnlock (emit EvRLock (w\<lparr>readers := Suc (readers w)\<rparr>)))"
  using assms
  by (simp add: manageFiles_def mu_free_def mu_RLock_def mu_RUnlock_def emit_def Let_def)

lemma manageFiles_html:
  assumes "mu_free w" and "\<not> Contains (Accept r) ''application/json''"
  shows "\<exists>stats w'. manageFiles E now r w =
     Done (Html (map (\<lambda>p. (template_row now (heap w p), download_link E (heap w p)))
                  (sort_Slice (\<lambda>a b. UploadTime (heap w a) > UploadTime (heap w b)) (map snd (files w))))
             stats (Get (Query r) ''q'') (Get (Query r) ''tag'')) w'
     \<and> observable w' = observable w"
  using assms
  by (simp add: manageFiles_def mu_free_def mu_RLock_def mu_RUnlock_def emit_def Let_def
      observable_def records_def template_row_def comp_def)

lemma listFilesAPI_unfold:
  assumes "mu_free w"
  shows "listFilesAPI r w =
     Done (Json (JObj
        [(''files'', JArr (map (\<lambda>p. marshal_FileInfo (heap w p))
            (page (parse_offset (Get (Query r) ''offset'')) (parse_limit (Get (Query r) ''limit''))
               (sort_Slice (\<lambda>a b. UploadTime (heap w a) > UploadTime (heap w b)) (map snd (files w)))))),
         (''limit'', JNum (parse_limit (Get (Query r) ''limit''))),
         (''offset'', JNum (parse_offset (Get (Query r) ''offset''))),
         (''total'', JNum (int (length (sort_Slice (\<lambda>a b. UploadTime (heap w a) > UploadTime (heap w b)) (map snd (files w))))))]))
       (mu_RUnlock (emit EvRLock (w\<lparr>readers := Suc (readers w)\<rparr>)))"
  using assms
  by (simp add: listFilesAPI_def mu_free_def mu_RLock_def mu_RUnlock_def emit_def Let_def)

lemma page_take_drop:
  assumes "0 \<le> offset" and "0 < limit"
  shows "page offset limit fs = take (nat limit) (drop (nat offset) fs)"
  using assms by (auto simp: page_def Let_def nat_diff_distrib min_def intro!: arg_cong2 [where f = take])

lemma parse_limit_range: "1 \<le> parse_limit l \<and> parse_limit l \<le> 1000"
  by (simp add: parse_limit_def split: option.splits)

lemma parse_offset_range: "0 \<le> parse_offset l"
  by (simp add: parse_offset_def split: option.splits)



lemma search_listing:
  assumes "mu_free w"
  shows "\<exists>ps. result_of (searchFiles S r w)
                = Some (Json (if ps = [] then JNull else JArr (map (\<lambda>q. marshal_FileInfo (heap w q)) ps)))
            \<and> mset ps = mset (filter (\<lambda>q. matches S (Get (Query r) ''q'') (Get (Query r) ''tag'') (heap w q)) (map snd (files w)))
            \<and> sorted_wrt (\<lambda>a b. sort_field (Get (Query r) ''sort'') (heap w a) \<ge> sort_field (Get (Query r) ''sort'') (heap w b)) ps"
proof -
  let ?ps = "search_sort (Get (Query r) ''sort'') (heap w) (search_matching S r w)"
  have 1: "result_of (searchFiles S r w)
            = Some (Json (if ?ps = [] then JNull else JArr (map (\<lambda>p. marshal_FileInfo (heap w p)) ?ps)))"
    by (simp add: searchFiles_unfold [OF assms] result_of_def)
  have 2: "mset ?ps = mset (filter (\<lambda>p. matches S (Get (Query r) ''q'') (Get (Query r) ''tag'') (heap w p)) (map snd (files w)))"
    by (simp add: search_sort_mset search_matching_def)
  have 3: "sorted_wrt (\<lambda>a b. sort_field (Get (Query r) ''sort'') (heap w a) \<ge> sort_field (Get (Query r) ''sort'') (heap w b)) ?ps"
    by (rule search_sort_sorted)
  show ?thesis using 1 2 3 by blast
qed

lemma list_api_listing:
  assumes "mu_free w"
  shows "\<exists>ps. result_of (listFilesAPI r w)
                = Some (Json (JObj
                    [(''files'', JArr (map (\<lambda>q. marshal_FileInfo (heap w q))
                        (take (nat (parse_limit (Get (Query r) ''limit'')))
                           (drop (nat (parse_offset (Get (Query r) ''offset''))) ps)))),
                     (''limit'', JNum (parse_limit (Get (Query r) ''limit''))),
                     (''offset'', JNum (parse_offset (Get (Query r) ''offset''))),
                     (''total'', JNum (int (length (files w))))]))
            \<and> mset ps = mset (map snd (files w))
            \<and> sorted_wrt (\<lambda>a b. UploadTime (heap w a) \<ge> UploadTime (heap w b)) ps"
proof -
  let ?all = "sort_Slice (\<lambda>a b. UploadTime (heap w a) > UploadTime (heap w b)) (map snd (files w))"
  have len: "length ?all = length (files w)"
    using mset_sort_Slice [of "\<lambda>a b. UploadTime (heap w a) > UploadTime (heap w b)" "map snd (files w)"]
    by (metis length_map size_mset)
  have pg: "page (parse_offset (Get (Query r) ''offset'')) (parse_limit (Get (Query r) ''limit'')) ?all
          = take (nat (parse_limit (Get (Query r) ''limit''))) (drop (nat (parse_offset (Get (Query r) ''offset''))) ?all)"
    using parse_limit_range [of "Get (Query r) ''limit''"] parse_offset_range [of "Get (Query r) ''offset''"]
    by (intro page_take_drop) simp_all
  have 5: "result_of (listFilesAPI r w)
                = Some (Json (JObj
                    [(''files'', JArr (map (\<lambda>p. marshal_FileInfo (heap w p))
                        (take (nat (parse_limit (Get (Query r) ''limit'')))
                           (drop (nat (parse_offset (Get (Query r) ''offset''))) ?all)))),
                     (''limit'', JNum (parse_limit (Get (Query r) ''limit''))),
                     (''offset'', JNum (parse_offset (Get (Query r) ''offset''))),
                     (''total'', JNum (int (length (files w))))]))"
    by (simp add: listFilesAPI_unfold [OF assms] result_of_def pg len)
  have 6: "mset ?all = mset (map snd (files w))"
    by (rule mset_sort_Slice)
  have 7: "sorted_wrt (\<lambda>a b. UploadTime (heap w a) \<ge> UploadTime (heap w b)) ?all"
    by (rule sorted_sort_Slice)
  show ?thesis using 5 6 7 by blast
qed

text \<open>A record of the registry is in the management listing, and in a search it matches.\<close>

lemma manage_json_holds:
  assumes "mu_free w" and "(k, p) \<in> set (files w)" and "Contains (Accept r) ''application/json''"
  shows "\<exists>js. result_of (manageFiles E now r w) = Some (Json (JArr js)) \<and> marshal_FileInfo (heap w p) \<in> set js"
proof -
  let ?ps = "sort_Slice (\<lambda>a b. UploadTime (heap w a) > UploadTime (heap w b)) (map snd (files w))"
  have "p \<in> set ?ps"
    using assms(2) by (force simp: set_sort_Slice)
  then have "marshal_FileInfo (heap w p) \<in> set (map (\<lambda>p. marshal_FileInfo (heap w p)) ?ps)"
    by simp
  moreover have "result_of (manageFiles E now r w) = Some (Json (JArr (map (\<lambda>p. marshal_FileInfo (heap w p)) ?ps)))"
    by (simp add: manageFiles_json [OF assms(1,3)] result_of_def)
  ultimately show ?thesis by blast
qed

lemma manage_html_holds:
  assumes "mu_free w" and "(k, p) \<in> set (files w)" and "\<not> Contains (Accept r) ''application/json''"
  shows "\<exists>rows stats q t. result_of (manageFiles E now r w) = Some (Html rows stats q t)
            \<and> (template_row now (heap w p), download_link E (heap w p)) \<in> set rows"
proof -
  let ?ps = "sort_Slice (\<lambda>a b. UploadTime (heap w a) > UploadTime (heap w b)) (map snd (files w))"
  let ?rows = "map (\<lambda>p. (template_row now (heap w p), download_link E (heap w p))) ?ps"
  obtain stats w' where m: "manageFiles E now r w = Done (Html ?rows stats (Get (Query r) ''q'') (Get (Query r) ''tag'')) w'"
    using manageFiles_html [OF assms(1,3), of E now] by blast
  have "p \<in> set ?ps"
    using assms(2) by (force simp: set_sort_Slice)
  then have "(template_row now (heap w p), download_link E (heap w p)) \<in> set ?rows"
    by simp
  moreover have "result_of (manageFiles E now r w) = Some (Html ?rows stats (Get (Query r) ''q'') (Get (Query r) ''tag''))"
    by (simp add: m result_of_def)
  ultimately show ?thesis by blast
qed

lemma search_holds:
  assumes "mu_free w" and "(k, p) \<in> set (files w)"
    and m: "matches S (Get (Query r) ''q'') (Get (Query r) ''tag'') (heap w p)"
  shows "\<exists>js. result_of (searchFiles S r w) = Some (Json (JArr js)) \<and> marshal_FileInfo (heap w p) \<in> set js"
proof -
  let ?ps = "search_sort (Get (Query r) ''sort'') (heap w) (search_matching S r w)"
  have "p \<in> set (search_matching S r w)"
    using assms(2) m by (force simp: search_matching_def)
  then have in_ps: "p \<in> set ?ps"
    using search_sort_mset [of "Get (Query r) ''sort''" "heap w" "search_matching S r w"]
    by (metis set_mset_mset)
  then have "?ps \<noteq> []" by auto
  then have "result_of (searchFiles S r w) = Some (Json (JArr (map (\<lambda>p. marshal_FileInfo (heap w p)) ?ps)))"
    by (simp add: searchFiles_unfold [OF assms(1)] result_of_def)
  moreover have "marshal_FileInfo (heap w p) \<in> set (map (\<lambda>p. marshal_FileInfo (heap w p)) ?ps)"
    using in_ps by simp
  ultimately show ?thesis by blast
qed

text \<open>
  C10, as the claim states it, fails for a password that is not valid UTF-8. The record
  of \<open>w4\<close> has the password FF (one byte). The info lookup returns the JSON form of
  the record, whose \<open>password\<close> is the replacement character U+FFFD (the bytes
  EF BF BD), not the stored password; a download with what the client read there is
  refused.
\<close>

theorem C10_invalid_utf8_password_is_replaced:
  "Password (heap w4 0) = [char_of (255 :: nat)]
   \<and> result_of (fileInfo (req0\<lparr>URLPath := ''/info/ab''\<rparr>) w4) = Some (Json (marshal_FileInfo (heap w4 0)))
   \<and> json_field (marshal_FileInfo (heap w4 0)) ''password''
       = Some (JStr [char_of (239 :: nat), char_of (191 :: nat), char_of (189 :: nat)])
   \<and> result_of (downloadFile cfg0 50
        (req0\<lparr>URLPath := ''/download/ab'',
              Query := [(''password'', [char_of (239 :: nat), char_of (191 :: nat), char_of (189 :: nat)])]\<rparr>) w4)
       = Some (HttpError 401 ''Password required'')"
proof -
  have h: "heap w4 0 = rec3" "Password rec3 = [char_of (255 :: nat)]"
    by (simp_all add: w4_def w1_def w0_def rec3_def)
  have 1: "result_of (fileInfo (req0\<lparr>URLPath := ''/info/ab''\<rparr>) w4) = Some (Json (marshal_FileInfo (heap w4 0)))"
    by (simp add: fileInfo_def result_of_def prims TrimPrefix_def req0_def w4_def w1_def w0_def)
  have 2: "json_field (marshal_FileInfo rec3) ''password''
       = Some (JStr [char_of (239 :: nat), char_of (191 :: nat), char_of (189 :: nat)])"
    using marshal_password [of rec3] by (simp add: h utf8_coerce_ff replacement_char_def)
  have 3: "result_of (downloadFile cfg0 50
        (req0\<lparr>URLPath := ''/download/ab'',
              Query := [(''password'', [char_of (239 :: nat), char_of (191 :: nat), char_of (189 :: nat)])]\<rparr>) w4)
       = Some (HttpError 401 ''Password required'')"
    by (simp add: downloadFile_def downloadFile_check_def result_of_def prims TrimPrefix_def Get_def Let_def
        req0_def w4_def w1_def w0_def rec3_def rec1_def)
  show ?thesis
    using 1 2 3 by (simp add: h)
qed

text \<open>
  C10, amended: for a record of the registry with a non-empty password, the JSON form of
  the record holds, under the key \<open>password\<close>, the password as json.Marshal writes
  it: not empty, with U+FFFD for each byte that is not valid UTF-8, hence the stored
  password itself when that is valid UTF-8. The info lookup of its id returns that JSON
  form; a search that the record matches and the management listing as JSON hold it.
  The management page holds a row for the record whose Download link is
  \<open>/download/\<close>, the id, \<open>?password=\<close> and the password, the id passed through
  the URL normalizer and the password through the URL escaper of html/template, and
  both through its attribute escaper.
\<close>

theorem C10_password_in_output:
  assumes "mu_free w" and "(k, p) \<in> set (files w)" and "Password (heap w p) \<noteq> []"
  shows "json_field (marshal_FileInfo (heap w p)) ''password'' = Some (JStr (utf8_coerce (Password (heap w p))))
     \<and> utf8_coerce (Password (heap w p)) \<noteq> []
     \<and> (utf8_valid (Password (heap w p)) \<longrightarrow>
          json_field (marshal_FileInfo (heap w p)) ''password'' = Some (JStr (Password (heap w p))))
     \<and> (map_of (files w) (TrimPrefix (URLPath r) ''/info/'') = Some p \<longrightarrow>
          result_of (fileInfo r w) = Some (Json (marshal_FileInfo (heap w p))))
     \<and> (matches S (Get (Query r) ''q'') (Get (Query r) ''tag'') (heap w p) \<longrightarrow>
          (\<exists>js. result_of (searchFiles S r w) = Some (Json (JArr js)) \<and> marshal_FileInfo (heap w p) \<in> set js))
     \<and> (Contains (Accept r) ''application/json'' \<longrightarrow>
          (\<exists>js. result_of (manageFiles E now r w) = Some (Json (JArr js)) \<and> marshal_FileInfo (heap w p) \<in> set js))
     \<and> (\<not> Contains (Accept r) ''application/json'' \<longrightarrow>
          (\<exists>rows stats q t. result_of (manageFiles E now r w) = Some (Html rows stats q t)
             \<and> (\<exists>row \<in> set rows. Info (fst row) = heap w p
                   \<and> snd row = ''/download/'' @ attrescaper E (urlnormalizer E (ID (heap w p)))
                                 @ ''?password='' @ attrescaper E (urlescaper E (Password (heap w p))))))"
proof (intro conjI impI)
  show "json_field (marshal_FileInfo (heap w p)) ''password'' = Some (JStr (utf8_coerce (Password (heap w p))))"
    using assms(3) by (rule marshal_password)
  show "utf8_coerce (Password (heap w p)) \<noteq> []"
    using assms(3) by (simp add: utf8_coerce_def coerce_from_nonempty)
next
  assume "utf8_valid (Password (heap w p))"
  then show "json_field (marshal_FileInfo (heap w p)) ''password'' = Some (JStr (Password (heap w p)))"
    using marshal_password [OF assms(3)] by (simp add: utf8_valid_def)
next
  assume "map_of (files w) (TrimPrefix (URLPath r) ''/info/'') = Some p"
  then show "result_of (fileInfo r w) = Some (Json (marshal_FileInfo (heap w p)))"
    using fileInfo_found [OF assms(1)] by simp
next
  assume "matches S (Get (Query r) ''q'') (Get (Query r) ''tag'') (heap w p)"
  then show "\<exists>js. result_of (searchFiles S r w) = Some (Json (JArr js)) \<and> marshal_FileInfo (heap w p) \<in> set js"
    by (rule search_holds [OF assms(1,2)])
next
  assume "Contains (Accept r) ''application/json''"
  then show "\<exists>js. result_of (manageFiles E now r w) = Some (Json (JArr js)) \<and> marshal_FileInfo (heap w p) \<in> set js"
    by (rule manage_json_holds [OF assms(1,2)])
next
  assume a: "\<not> Contains (Accept r) ''application/json''"
  obtain rows stats q t where m: "result_of (manageFiles E now r w) = Some (Html rows stats q t)"
      and row: "(template_row now (heap w p), download_link E (heap w p)) \<in> set rows"
    using manage_html_holds [OF assms(1,2) a, of E now] by blast
  have "Info (fst (template_row now (heap w p), download_link E (heap w p))) = heap w p
      \<and> snd (template_row now (heap w p), download_link E (heap w p))
          = ''/download/'' @ attrescaper E (urlnormalizer E (ID (heap w p)))
              @ ''?password='' @ attrescaper E (urlescaper E (Password (heap w p)))"
    using assms(3) by (simp add: template_row_def download_link_def Let_def)
  then show "\<exists>rows stats q t. result_of (manageFiles E now r w) = Some (Html rows stats q t)
             \<and> (\<exists>row \<in> set rows. Info (fst row) = heap w p
                   \<and> snd row = ''/download/'' @ attrescaper E (urlnormalizer E (ID (heap w p)))
                                 @ ''?password='' @ attrescaper E (urlescaper E (Password (heap w p))))"
    using m row by blast
qed

lemma w2_facts:
  "mu_free w2" "files w2 = [(''ab'', 0), (''cd'', 1)]" "heap w2 0 = rec1" "heap w2 (Suc 0) = rec2"
  "Password rec1 = ''pw''" "ID rec1 = ''ab''"
  by (simp_all add: mu_free_def w2_def w1_def w0_def rec1_def)

theorem C10_password_in_output_witness:
  "mu_free w2 \<and> (''ab'', 0) \<in> set (files w2) \<and> Password (heap w2 0) \<noteq> [] \<and> utf8_valid (Password (heap w2 0))
   \<and> json_field (marshal_FileInfo rec1) ''password'' = Some (JStr ''pw'')
   \<and> result_of (fileInfo (req0\<lparr>URLPath := ''/info/ab'', Accept := ''application/json''\<rparr>) w2)
        = Some (Json (marshal_FileInfo rec1))
   \<and> (\<exists>js. result_of (searchFiles ascii_strings (req0\<lparr>URLPath := ''/info/ab'', Accept := ''application/json''\<rparr>) w2) = Some (Json (JArr js))
         \<and> marshal_FileInfo rec1 \<in> set js)
   \<and> (\<exists>js. result_of (manageFiles alnum_escapers 50 (req0\<lparr>URLPath := ''/info/ab'', Accept := ''application/json''\<rparr>) w2) = Some (Json (JArr js))
         \<and> marshal_FileInfo rec1 \<in> set js)
   \<and> (\<exists>rows stats q t. result_of (manageFiles alnum_escapers 50 req0 w2) = Some (Html rows stats q t)
         \<and> (\<exists>row \<in> set rows. Info (fst row) = rec1 \<and> snd row = ''/download/ab?password=pw''))"
proof -
  have a: "mu_free w2" "(''ab'', 0) \<in> set (files w2)" "Password (heap w2 0) \<noteq> []"
    by (simp_all add: w2_facts)
  have v: "utf8_valid (Password (heap w2 0))"
    by (simp add: w2_facts utf8_valid_def utf8_coerce_ascii)
  have b: "map_of (files w2) (TrimPrefix (URLPath (req0\<lparr>URLPath := ''/info/ab'', Accept := ''application/json''\<rparr>)) ''/info/'') = Some 0"
      "matches ascii_strings (Get (Query (req0\<lparr>URLPath := ''/info/ab'', Accept := ''application/json''\<rparr>)) ''q'')
         (Get (Query (req0\<lparr>URLPath := ''/info/ab'', Accept := ''application/json''\<rparr>)) ''tag'') (heap w2 0)"
      "Contains (Accept (req0\<lparr>URLPath := ''/info/ab'', Accept := ''application/json''\<rparr>)) ''application/json''"
      "\<not> Contains (Accept req0) ''application/json''"
    by (simp_all add: w2_facts req0_def TrimPrefix_def Get_def matches_def)
  show ?thesis
    using C10_password_in_output [OF a, of "req0\<lparr>URLPath := ''/info/ab'', Accept := ''application/json''\<rparr>" ascii_strings alnum_escapers 50]
      C10_password_in_output [OF a, of req0 ascii_strings alnum_escapers 50] a b v
    by (simp add: w2_facts alnum_escapers_def)
qed

text \<open>
  C9, amended. searchFiles returns the records that match every supplied filter (the
  query, lower-cased by strings.ToLower, in the lower-cased Filename or Description; the
  tag equal under strings.EqualFold to one of the record's tags), each once, sorted by
  the requested field (size, downloads, or else upload time), largest first, and is not
  paginated. listFilesAPI returns every record sorted by upload time, newest first, cut
  to \<open>limit\<close> records from \<open>offset\<close>, where a limit that does not parse or lies
  outside 1..1000 is replaced by 50 (not clamped) and an offset that does not parse or
  is negative by 0. Neither changes the records, the disk or the snapshot.
\<close>

theorem C9_search_and_listing:
  assumes "mu_free w"
  shows "(\<exists>ps. result_of (searchFiles S r w)
                = Some (Json (if ps = [] then JNull else JArr (map (\<lambda>p. marshal_FileInfo (heap w p)) ps)))
            \<and> mset ps = mset (filter (\<lambda>p. matches S (Get (Query r) ''q'') (Get (Query r) ''tag'') (heap w p)) (map snd (files w)))
            \<and> sorted_wrt (\<lambda>a b. sort_field (Get (Query r) ''sort'') (heap w a) \<ge> sort_field (Get (Query r) ''sort'') (heap w b)) ps)
     \<and> (\<forall>q tag fi. matches S q tag fi \<longleftrightarrow>
            (q = [] \<or> Contains (ToLower S (Filename fi)) (ToLower S q) \<or> Contains (ToLower S (Description fi)) (ToLower S q))
            \<and> (tag = [] \<or> (\<exists>t \<in> set (Tags fi). EqualFold S t tag)))
     \<and> observable (world_of (searchFiles S r w)) = observable w
     \<and> (\<exists>ps. result_of (listFilesAPI r w)
                = Some (Json (JObj
                    [(''files'', JArr (map (\<lambda>p. marshal_FileInfo (heap w p))
                        (take (nat (parse_limit (Get (Query r) ''limit'')))
                           (drop (nat (parse_offset (Get (Query r) ''offset''))) ps)))),
                     (''limit'', JNum (parse_limit (Get (Query r) ''limit''))),
                     (''offset'', JNum (parse_offset (Get (Query r) ''offset''))),
                     (''total'', JNum (int (length (files w))))]))
            \<and> mset ps = mset (map snd (files w))
            \<and> sorted_wrt (\<lambda>a b. UploadTime (heap w a) \<ge> UploadTime (heap w b)) ps)
     \<and> (\<forall>l. parse_limit l = (case Atoi l of Some n \<Rightarrow> if 0 < n \<and> n \<le> 1000 then n else 50 | None \<Rightarrow> 50))
     \<and> (\<forall>l. parse_offset l = (case Atoi l of Some n \<Rightarrow> if 0 \<le> n then n else 0 | None \<Rightarrow> 0))
     \<and> observable (world_of (listFilesAPI r w)) = observable w"
proof -
  note 1 = search_listing [OF assms, of S r]
  have 4: "observable (world_of (searchFiles S r w)) = observable w"
    by (simp add: searchFiles_unfold [OF assms] world_of_def observable_rlock_runlock)
  note 5 = list_api_listing [OF assms, of r]
  have 8: "parse_limit l = (case Atoi l of Some n \<Rightarrow> if 0 < n \<and> n \<le> 1000 then n else 50 | None \<Rightarrow> 50)" for l
    by (simp add: parse_limit_def Atoi_def)
  have 9: "parse_offset l = (case Atoi l of Some n \<Rightarrow> if 0 \<le> n then n else 0 | None \<Rightarrow> 0)" for l
    by (simp add: parse_offset_def Atoi_def)
  have 10: "observable (world_of (listFilesAPI r w)) = observable w"
    by (simp add: listFilesAPI_unfold [OF assms] world_of_def observable_rlock_runlock)
  show ?thesis
    using 1 4 5 8 9 10 matches_iff by blast
qed

lemma Atoi_2000: "Atoi ''2000'' = Some 2000"
  by (simp add: Atoi_def digit_def)

lemma Atoi_1: "Atoi ''1'' = Some 1"
  by (simp add: Atoi_def digit_def)

text \<open>
  C9, as the claim states it, fails: listFilesAPI answers limit=2000 with the page size
  50, not with the maximum 1000, and searchFiles ignores limit: asked for one record it
  returns both.
\<close>

theorem C9_limit_not_clamped_search_not_paged:
  "result_of (listFilesAPI (req0\<lparr>Query := [(''limit'', ''2000'')]\<rparr>) w2)
     = Some (Json (JObj [(''files'', JArr [marshal_FileInfo rec2, marshal_FileInfo rec1]),
                         (''limit'', JNum 50), (''offset'', JNum 0), (''total'', JNum 2)]))
   \<and> result_of (searchFiles ascii_strings (req0\<lparr>Query := [(''limit'', ''1'')]\<rparr>) w2)
     = Some (Json (JArr [marshal_FileInfo rec2, marshal_FileInfo rec1]))"
  by (simp add: listFilesAPI_def searchFiles_def search_matching_def search_sort_def matches_def
      sort_Slice_def page_def parse_limit_def parse_offset_def Atoi_2000 Get_def Let_def result_of_def
      mu_RLock_def mu_RUnlock_def emit_def req0_def w2_def w1_def w0_def rec1_def rec2_def)

theorem C9_search_and_listing_witness:
  "mu_free w2
   \<and> (\<exists>ps. result_of (searchFiles ascii_strings search_req w2)
              = Some (Json (if ps = [] then JNull else JArr (map (\<lambda>p. marshal_FileInfo (heap w2 p)) ps)))
          \<and> mset ps = {#0, 1#}
          \<and> sorted_wrt (\<lambda>a b. Size (heap w2 a) \<ge> Size (heap w2 b)) ps)
   \<and> (\<exists>ps. result_of (listFilesAPI search_req w2)
              = Some (Json (JObj [(''files'', JArr (map (\<lambda>p. marshal_FileInfo (heap w2 p)) (take 1 (drop 1 ps)))),
                                  (''limit'', JNum 1), (''offset'', JNum 1), (''total'', JNum 2)]))
          \<and> mset ps = {#0, 1#}
          \<and> sorted_wrt (\<lambda>a b. UploadTime (heap w2 a) \<ge> UploadTime (heap w2 b)) ps)"
proof -
  have a: "mu_free w2" by (rule w2_facts)
  have q: "Get (Query search_req) ''q'' = ''NOTES''" "Get (Query search_req) ''tag'' = ''work''"
    "Get (Query search_req) ''sort'' = ''size''" "Get (Query search_req) ''limit'' = ''1''"
    "Get (Query search_req) ''offset'' = ''1''"
    by (simp_all add: search_req_def req0_def Get_def)
  have m: "matches ascii_strings ''NOTES'' ''work'' rec1" "matches ascii_strings ''NOTES'' ''work'' rec2"
    by (simp_all add: matches_def rec1_def rec2_def ascii_strings_def ascii_lower_def char_of_def bit_0)
  have p: "parse_limit ''1'' = 1" "parse_offset ''1'' = 1"
    by (simp_all add: parse_limit_def parse_offset_def Atoi_1)
  show ?thesis
    using C9_search_and_listing [OF a, of ascii_strings search_req] a
    by (simp add: q m p w2_facts sort_field_def)
qed

subsection \<open>A record past its expiry\<close>




subsection \<open>Upload\<close>

lemma upload_refused:
  assumes "Method r \<noteq> ''POST'' \<or> fault env = ParseFails \<or> FormFile r = None
        \<or> (\<exists>fname ctype content. FormFile r = Some (fname, ctype, content) \<and> \<not> type_allowed cfg ctype)"
  shows "\<exists>code msg. uploadFile sha cfg env r w = Done (HttpError code msg) w"
  using assms by (auto simp: uploadFile_def)


lemma upload_faulted:
  assumes "Method r = ''POST''" and "FormFile r = Some (fname, ctype, content)" and "type_allowed cfg ctype"
    and "fault env \<noteq> NoFault"
  shows "\<exists>code msg w'. uploadFile sha cfg env r w = Done (HttpError code msg) w'
            \<and> files w' = files w
            \<and> (\<forall>q. q < fresh w \<longrightarrow> heap w' q = heap w q) \<and> fresh w \<le> fresh w'
            \<and> (\<forall>path. disk w path \<noteq> None \<longrightarrow> disk w' path \<noteq> None)"
  using assms
  by (cases "fault env")
     (simp_all add: uploadFile_def calculateChecksum_def alloc_def Let_def os_Create_def io_Copy_def emit_def)

lemma upload_succeeds:
  assumes "mu_free w" and "Method r = ''POST''" and "FormFile r = Some (fname, ctype, content)"
    and "type_allowed cfg ctype" and "fault env = NoFault"
  shows "\<exists>resp w'. uploadFile sha cfg env r w = Done resp w'
            \<and> \<not> is_error resp
            \<and> response_checksum resp = Some (EncodeToString (sha content))
            \<and> files w' = AList.update (generateID (rand_bytes env)) (fresh w) (files w)
            \<and> heap w' = (heap w)(fresh w := upload_record sha cfg env r fname ctype content)
            \<and> fresh w' = Suc (fresh w)
            \<and> disk w' = (disk w)(Path (upload_record sha cfg env r fname ctype content) \<mapsto> content)
            \<and> mu_free w'
            \<and> trace w' = trace w @
                 [EvIO ''Create'' (Path (upload_record sha cfg env r fname ctype content)),
                  EvIO ''Copy'' (Path (upload_record sha cfg env r fname ctype content)),
                  EvLock, EvInsert (generateID (rand_bytes env)), EvUnlock,
                  EvCall ''saveMetadata'', EvRLock, EvIO ''WriteFile'' (MetadataFile cfg), EvRUnlock]"
  using assms
  by (simp add: uploadFile_def saveMetadata_def mu_free_def prims alloc_def Let_def calculateChecksum_def
        is_error_def response_checksum_def json_field_def upload_record_def marshal_string_def utf8_coerce_hex)

lemma download_served:
  assumes "mu_free w" and "result_of (downloadFile cfg now r w) = Some (Served name ctype c body)"
  shows "\<exists>p. map_of (files w) (TrimPrefix (URLPath r) ''/download/'') = Some p \<and> c = Checksum (heap w p)"
proof (cases "map_of (files w) (TrimPrefix (URLPath r) ''/download/'')")
  case None
  then show ?thesis
    using assms
    by (simp add: downloadFile_def downloadFile_check_def result_of_def mu_free_def mu_RLock_def mu_RUnlock_def
        emit_def Let_def)
next
  case (Some p)
  show ?thesis
  proof (cases "Password (heap w p) \<noteq> [] \<and> Password (heap w p) \<noteq> Get (Query r) ''password''")
    case True
    then show ?thesis
      using download_wrong_password(1) [OF assms(1) Some] assms(2) by simp
  next
    case pw: False
    show ?thesis
    proof (cases "now > ExpiresAt (heap w p)")
      case True
      then show ?thesis
        using download_expired(1) [OF assms(1) Some True] pw assms(2) by auto
    next
      case False
      have pw': "Password (heap w p) = [] \<or> Password (heap w p) = Get (Query r) ''password''"
        using pw by blast
      show ?thesis
      proof (cases "MaxDownloads (heap w p) > 0 \<and> Downloads (heap w p) \<ge> MaxDownloads (heap w p)")
        case True
        then show ?thesis
          using downloadFile_limit_reached [OF assms(1) Some pw' False] assms(2) by simp
      next
        case nl: False
        then show ?thesis
          using downloadFile_counts_one [OF assms(1) Some pw' False nl] assms(2) Some by simp
      qed
    qed
  qed
qed

lemma upload_not_error:
  assumes "result_of (uploadFile sha cfg env r w) = Some resp \<and> \<not> is_error resp"
  shows "Method r = ''POST'' \<and> fault env = NoFault
     \<and> (\<exists>fname ctype content. FormFile r = Some (fname, ctype, content) \<and> type_allowed cfg ctype)"
proof -
  have ne: "uploadFile sha cfg env r w \<noteq> Done (HttpError code msg) w'" for code msg w'
    using assms by (auto simp: result_of_def is_error_def)
  have 1: "\<not> (Method r \<noteq> ''POST'' \<or> fault env = ParseFails \<or> FormFile r = None
        \<or> (\<exists>fname ctype content. FormFile r = Some (fname, ctype, content) \<and> \<not> type_allowed cfg ctype))"
    using upload_refused [of r env cfg sha w] ne by blast
  then obtain fname ctype content where ff: "FormFile r = Some (fname, ctype, content)" and ta: "type_allowed cfg ctype"
    by (cases "FormFile r") auto
  have "fault env = NoFault"
    using upload_faulted [of r fname ctype content cfg env sha w] 1 ff ta ne by blast
  then show ?thesis using 1 ff ta by blast
qed

text \<open>
  C6: whenever uploadFile, started with the mutex free, returns a response that is not
  an error, a file part was uploaded, the checksum in the response is the hexadecimal
  SHA-256 of its bytes (for whatever function stands for SHA-256), and the registry
  holds, under the new id, a record with that checksum whose path holds exactly those
  bytes on the disk. The checksum is computed in uploadFile only: the X-Checksum of a
  served download is the Checksum field of the record as stored, whatever the disk
  holds.
\<close>

theorem C6_checksum_of_stored_bytes:
  assumes "mu_free w"
  shows "(result_of (uploadFile sha cfg env r w) = Some resp \<and> \<not> is_error resp \<longrightarrow>
            (\<exists>fname ctype content p. FormFile r = Some (fname, ctype, content)
               \<and> response_checksum resp = Some (EncodeToString (sha content))
               \<and> map_of (files (world_of (uploadFile sha cfg env r w))) (generateID (rand_bytes env)) = Some p
               \<and> Checksum (heap (world_of (uploadFile sha cfg env r w)) p) = EncodeToString (sha content)
               \<and> disk (world_of (uploadFile sha cfg env r w)) (Path (heap (world_of (uploadFile sha cfg env r w)) p))
                    = Some content))
       \<and> (result_of (downloadFile cfg now dreq w) = Some (Served dname dtype dsum dbody) \<longrightarrow>
            (\<exists>p. map_of (files w) (TrimPrefix (URLPath dreq) ''/download/'') = Some p \<and> dsum = Checksum (heap w p)))"
proof (intro conjI impI)
  assume a: "result_of (uploadFile sha cfg env r w) = Some resp \<and> \<not> is_error resp"
  obtain fname ctype content where post: "Method r = ''POST''" and ff: "FormFile r = Some (fname, ctype, content)"
      and ta: "type_allowed cfg ctype" and nf: "fault env = NoFault"
    using upload_not_error [OF a] by blast
  obtain resp' w' where u: "uploadFile sha cfg env r w = Done resp' w'"
      and rc: "response_checksum resp' = Some (EncodeToString (sha content))"
      and f: "files w' = AList.update (generateID (rand_bytes env)) (fresh w) (files w)"
      and h: "heap w' = (heap w)(fresh w := upload_record sha cfg env r fname ctype content)"
      and d: "disk w' = (disk w)(Path (upload_record sha cfg env r fname ctype content) \<mapsto> content)"
    using upload_succeeds [OF assms post ff ta nf, of sha] by blast
  have r: "resp' = resp" using a u by (simp add: result_of_def)
  have wo: "world_of (uploadFile sha cfg env r w) = w'" using u by (simp add: world_of_def)
  have "map_of (files w') (generateID (rand_bytes env)) = Some (fresh w)"
    by (simp add: f update_conv')
  moreover have "Checksum (heap w' (fresh w)) = EncodeToString (sha content)"
    by (simp add: h upload_record_def)
  moreover have "disk w' (Path (heap w' (fresh w))) = Some content"
    by (simp add: h d)
  ultimately show "\<exists>fname ctype content p. FormFile r = Some (fname, ctype, content)
               \<and> response_checksum resp = Some (EncodeToString (sha content))
               \<and> map_of (files (world_of (uploadFile sha cfg env r w))) (generateID (rand_bytes env)) = Some p
               \<and> Checksum (heap (world_of (uploadFile sha cfg env r w)) p) = EncodeToString (sha content)
               \<and> disk (world_of (uploadFile sha cfg env r w)) (Path (heap (world_of (uploadFile sha cfg env r w)) p))
                    = Some content"
    using ff rc r wo by blast
next
  assume "result_of (downloadFile cfg now dreq w) = Some (Served dname dtype dsum dbody)"
  then show "\<exists>p. map_of (files w) (TrimPrefix (URLPath dreq) ''/download/'') = Some p \<and> dsum = Checksum (heap w p)"
    by (rule download_served [OF assms])
qed

lemma hex_16: "EncodeToString [1, 2, 3, 4, 5, 6, 7, 8, 9, 10, 11, 12, 13, 14, 15, 16] = ''0102030405060708090a0b0c0d0e0f10''"
  by (simp add: EncodeToString_def hexdigit_def)

lemma hex_3: "EncodeToString [1, 2, 3] = ''010203''"
  by (simp add: EncodeToString_def hexdigit_def)

theorem C6_checksum_of_stored_bytes_witness:
  "mu_free w0
   \<and> (\<exists>resp. result_of (uploadFile (take 32) cfg0 env1 up_req w0) = Some resp \<and> \<not> is_error resp
         \<and> response_checksum resp = Some ''010203'')
   \<and> (\<exists>p. map_of (files (world_of (uploadFile (take 32) cfg0 env1 up_req w0))) ''0102030405060708090a0b0c0d0e0f10'' = Some p
         \<and> Checksum (heap (world_of (uploadFile (take 32) cfg0 env1 up_req w0)) p) = ''010203''
         \<and> disk (world_of (uploadFile (take 32) cfg0 env1 up_req w0))
              (Path (heap (world_of (uploadFile (take 32) cfg0 env1 up_req w0)) p)) = Some [1, 2, 3])
   \<and> result_of (downloadFile cfg0 50 dl_req w1) = Some (Served ''a.txt'' ''text/plain'' ''c0'' (Some [1, 2]))
   \<and> (\<exists>p. map_of (files w1) ''ab'' = Some p \<and> ''c0'' = Checksum (heap w1 p))"
proof -
  have f0: "mu_free w0" by (simp add: mu_free_def w0_def)
  have f1: "mu_free w1" by (simp add: mu_free_def w1_def w0_def)
  have up: "Method up_req = ''POST''" "FormFile up_req = Some (''my file.txt'', ''text/plain'', [1, 2, 3])"
      "type_allowed cfg0 ''text/plain''" "fault env1 = NoFault"
    by (simp_all add: up_req_def req0_def type_allowed_def cfg0_def env1_def)
  obtain resp w' where u: "uploadFile (take 32) cfg0 env1 up_req w0 = Done resp w'" and ne: "\<not> is_error resp"
    using upload_succeeds [OF f0 up, of "take 32"] by blast
  have r: "result_of (uploadFile (take 32) cfg0 env1 up_req w0) = Some resp"
    using u by (simp add: result_of_def)
  have d: "result_of (downloadFile cfg0 50 dl_req w1) = Some (Served ''a.txt'' ''text/plain'' ''c0'' (Some [1, 2]))"
    by (simp add: downloadFile_def downloadFile_check_def downloadFile_serve_def incr_Downloads_def prims
      result_of_def TrimPrefix_def Get_def Let_def dl_req_def req0_def w1_def w0_def rec1_def)
  have t: "TrimPrefix (URLPath dl_req) ''/download/'' = ''ab''"
    by (simp add: TrimPrefix_def dl_req_def req0_def)
  have g: "generateID (rand_bytes env1) = ''0102030405060708090a0b0c0d0e0f10''"
    by (simp add: generateID_def env1_def hex_16)
  show ?thesis
    using C6_checksum_of_stored_bytes [OF f0, where sha = "take 32" and cfg = cfg0 and env = env1
        and r = up_req and resp = resp]
      C6_checksum_of_stored_bytes [OF f1, where cfg = cfg0 and now = 50 and dreq = dl_req and dname = "''a.txt''"
        and dtype = "''text/plain''" and dsum = "''c0''" and dbody = "Some [1, 2]"]
      f0 r ne d
    by (auto simp: up t g hex_3)
qed

subsection \<open>The snapshot: save, then load\<close>

lemma all_some_map_Some: "all_some (map (\<lambda>x. Some (f x)) xs) = Some (map f xs)"
  by (induction xs) simp_all

lemma as_strs_roundtrip: "as_strs (JArr (map marshal_string ts)) = Some (map utf8_coerce ts)"
  using all_some_map_Some [of utf8_coerce ts] by (simp add: as_strs_def as_str_def marshal_string_def comp_def)

lemma as_map_entries:
  "all_some (map (\<lambda>(k, v). map_option (Pair k) (as_str v)) (map (\<lambda>(k, v). (utf8_coerce k, marshal_string v)) m))
     = Some (map (\<lambda>(k, v). (utf8_coerce k, utf8_coerce v)) m)"
  by (induction m) (auto simp: as_str_def marshal_string_def)

lemma as_map_roundtrip:
  "as_map (JObj (map (\<lambda>(k, v). (utf8_coerce k, marshal_string v)) m))
     = Some (map (\<lambda>(k, v). (utf8_coerce k, utf8_coerce v)) m)"
  by (simp add: as_map_def as_map_entries del: map_map)

text \<open>
  What json.Unmarshal reads back from the JSON form of a record: the record with every
  string as json.Marshal wrote it.
\<close>

lemma unmarshal_marshal_FileInfo: "unmarshal_FileInfo (marshal_FileInfo r) = Some (coerce_FileInfo r)"
proof -
  have s: "as_str (marshal_string x) = Some (utf8_coerce x)" "as_str JNull = Some []" for x
    by (simp_all add: as_str_def marshal_string_def)
  show ?thesis
  proof (cases "Password r = []")
    case True
    then have "utf8_coerce (Password r) = []"
      by (simp add: utf8_coerce_def)
    then show ?thesis
      using True
      by (simp add: unmarshal_FileInfo_def marshal_FileInfo_def coerce_FileInfo_def field_def s
          as_int_def as_time_def as_strs_roundtrip as_map_roundtrip del: map_map)
  next
    case False
    then show ?thesis
      by (simp add: unmarshal_FileInfo_def marshal_FileInfo_def coerce_FileInfo_def field_def s
          as_int_def as_time_def as_strs_roundtrip as_map_roundtrip del: map_map)
  qed
qed

lemma coerce_FileInfo_valid:
  assumes "utf8_FileInfo r"
  shows "coerce_FileInfo r = r"
proof -
  have t: "map utf8_coerce (Tags r) = Tags r"
    using assms by (intro map_idI) (simp add: utf8_FileInfo_def utf8_valid_def list_all_iff)
  have m: "map (\<lambda>(k, v). (utf8_coerce k, utf8_coerce v)) (Metadata r) = Metadata r"
    using assms by (intro map_idI) (auto simp: utf8_FileInfo_def utf8_valid_def list_all_iff)
  show ?thesis
    using assms by (simp add: coerce_FileInfo_def utf8_FileInfo_def utf8_valid_def t m)
qed

lemma unmarshal_entry_marshal: "unmarshal_entry (marshal_FileInfo r) = Some (Some (coerce_FileInfo r))"
  using unmarshal_marshal_FileInfo [of r] by (simp add: unmarshal_entry_def marshal_FileInfo_def)

lemma update_fresh_key: "k \<notin> fst ` set al \<Longrightarrow> AList.update k v al = al @ [(k, v)]"
  by (induction al) auto

lemma fold_update_distinct:
  "distinct (map fst es) \<Longrightarrow> fst ` set es \<inter> fst ` set acc = {} \<Longrightarrow>
   fold (\<lambda>(k, e). AList.update k e) es acc = acc @ es"
proof (induction es arbitrary: acc)
  case Nil
  then show ?case by simp
next
  case (Cons x es)
  obtain k e where x: "x = (k, e)" by (cases x)
  have "AList.update k e acc = acc @ [(k, e)]"
    using Cons.prems(2) by (intro update_fresh_key) (auto simp: x)
  moreover have "fold (\<lambda>(k, e). AList.update k e) es (acc @ [(k, e)]) = (acc @ [(k, e)]) @ es"
    using Cons.prems by (intro Cons.IH) (auto simp: x)
  ultimately show ?case by (simp add: x)
qed

lemma distinct_fold_update:
  "distinct (map fst acc) \<Longrightarrow> distinct (map fst (fold (\<lambda>(k, e). AList.update k e) es acc))"
  by (induction es arbitrary: acc) (auto simp: distinct_update)

lemma all_some_marshalled:
  "all_some (map (\<lambda>(k, v). map_option (Pair k) (unmarshal_entry v)) (map (\<lambda>(k, r). (utf8_coerce k, marshal_FileInfo r)) recs))
     = Some (map (\<lambda>(k, r). (utf8_coerce k, Some (coerce_FileInfo r))) recs)"
  by (induction recs) (auto simp: unmarshal_entry_marshal)

lemma unmarshal_marshal_files:
  assumes "distinct (map (\<lambda>e. utf8_coerce (fst e)) recs)"
  shows "unmarshal_files (marshal_files recs) = Some (map (\<lambda>(k, r). (utf8_coerce k, Some (coerce_FileInfo r))) recs)"
proof -
  have d: "distinct (map fst (map (\<lambda>(k, r). (utf8_coerce k, Some (coerce_FileInfo r))) recs))"
    using assms by (simp add: comp_def case_prod_beta)
  show ?thesis
    using fold_update_distinct [OF d, of "[]"]
    by (simp add: unmarshal_files_def marshal_files_def all_some_marshalled del: map_map)
qed

lemma all_some_entries: "all_some (map (\<lambda>(k, e). map_option (Pair k) e) (map (\<lambda>(k, r). (f k, Some (g r))) recs))
    = Some (map (\<lambda>(k, r). (f k, g r)) recs)"
  by (induction recs) auto

lemma load_loop_frame:
  "disk (snd (load_loop es valid w)) = disk w
   \<and> snapshot (snd (load_loop es valid w)) = snapshot w
   \<and> meta_writable (snd (load_loop es valid w)) = meta_writable w
   \<and> writer (snd (load_loop es valid w)) = writer w
   \<and> readers (snd (load_loop es valid w)) = readers w"
proof (induction es arbitrary: valid w)
  case Nil
  then show ?case by simp
next
  case (Cons e es)
  obtain k r where e: "e = (k, r)" by (cases e)
  let ?w2 = "snd (os_Stat (Path r) (snd (alloc r w)))"
  show ?case
    using Cons.IH [of "AList.update k (fresh w) valid" ?w2] Cons.IH [of valid ?w2]
    by (simp add: e alloc_def os_Stat_def emit_def)
qed

lemma load_loop_records:
  assumes "\<forall>(k, p) \<in> set valid. p < fresh w" and "distinct (map fst es)"
    and "fst ` set es \<inter> fst ` set valid = {}"
  shows "map (\<lambda>(k, p). (k, heap (snd (load_loop es valid w)) p)) (fst (load_loop es valid w))
       = map (\<lambda>(k, p). (k, heap w p)) valid @ filter (\<lambda>(k, r). disk w (Path r) \<noteq> None) es"
  using assms
proof (induction es arbitrary: valid w)
  case Nil
  then show ?case by simp
next
  case (Cons e es)
  obtain k r where e: "e = (k, r)" by (cases e)
  let ?w2 = "snd (os_Stat (Path r) (snd (alloc r w)))"
  have w2: "heap ?w2 = (heap w)(fresh w := r)" "fresh ?w2 = Suc (fresh w)" "disk ?w2 = disk w"
    by (simp_all add: alloc_def os_Stat_def emit_def)
  have old: "map (\<lambda>(k, p). (k, heap ?w2 p)) valid = map (\<lambda>(k, p). (k, heap w p)) valid"
    using Cons.prems(1) by (intro map_cong) (auto simp: w2)
  have knew: "k \<notin> fst ` set valid"
    using Cons.prems(3) by (auto simp: e)
  show ?case
  proof (cases "disk w (Path r) \<noteq> None")
    case True
    let ?v2 = "valid @ [(k, fresh w)]"
    have step: "load_loop (e # es) valid w = load_loop es ?v2 ?w2"
      using True by (simp add: e alloc_def os_Stat_def update_fresh_key [OF knew])
    have p1: "\<forall>(k, p) \<in> set ?v2. p < fresh ?w2"
      using Cons.prems(1) by (auto simp: w2)
    have p2: "distinct (map fst es)"
      using Cons.prems(2) by simp
    have p3: "fst ` set es \<inter> fst ` set ?v2 = {}"
      using Cons.prems(2,3) by (auto simp: e)
    have a: "map (\<lambda>(k, p). (k, heap ?w2 p)) ?v2 = map (\<lambda>(k, p). (k, heap w p)) valid @ [(k, r)]"
      unfolding map_append old by (simp add: w2(1))
    have b: "filter (\<lambda>(k, r). disk ?w2 (Path r) \<noteq> None) es = filter (\<lambda>(k, r). disk w (Path r) \<noteq> None) es"
      by (simp only: w2(3))
    show ?thesis
      unfolding step using Cons.IH [OF p1 p2 p3, unfolded a b] True
      by (simp add: e)
  next
    case False
    have step: "load_loop (e # es) valid w = load_loop es valid ?w2"
      using False by (simp add: e alloc_def os_Stat_def)
    have p1: "\<forall>(k, p) \<in> set valid. p < fresh ?w2"
      using Cons.prems(1) by (auto simp: w2)
    have p2: "distinct (map fst es)"
      using Cons.prems(2) by simp
    have p3: "fst ` set es \<inter> fst ` set valid = {}"
      using Cons.prems(3) by auto
    have b: "filter (\<lambda>(k, r). disk ?w2 (Path r) \<noteq> None) es = filter (\<lambda>(k, r). disk w (Path r) \<noteq> None) es"
      by (simp only: w2(3))
    show ?thesis
      unfolding step using Cons.IH [OF p1 p2 p3, unfolded old b] False
      by (simp add: e)
  qed
qed

lemma loadMetadata_doc:
  assumes "snapshot w = Doc (marshal_files recs)" and "distinct (map (\<lambda>e. utf8_coerce (fst e)) recs)"
  shows "\<exists>w'. loadMetadata cfg w = Some w'
     \<and> records w' = filter (\<lambda>(k, r). disk w (Path r) \<noteq> None) (map (\<lambda>(k, r). (utf8_coerce k, coerce_FileInfo r)) recs)
     \<and> disk w' = disk w \<and> snapshot w' = snapshot w"
proof -
  let ?es = "map (\<lambda>(k, r). (utf8_coerce k, coerce_FileInfo r)) recs"
  let ?w1 = "emit (EvIO ''ReadFile'' (MetadataFile cfg)) w"
  let ?l = "load_loop ?es [] ?w1"
  have d: "distinct (map fst ?es)"
    using assms(2) by (simp add: comp_def case_prod_beta)
  have l: "loadMetadata cfg w = Some ((snd ?l)\<lparr>files := fst ?l\<rparr>)"
    using assms
    by (simp add: loadMetadata_def os_ReadFile_meta_def unmarshal_marshal_files all_some_entries case_prod_beta
        del: map_map)
  have r: "map (\<lambda>(k, p). (k, heap (snd ?l) p)) (fst ?l) = filter (\<lambda>(k, r). disk ?w1 (Path r) \<noteq> None) ?es"
    using load_loop_records [of "[]" ?w1 ?es] d by simp
  have "records ((snd ?l)\<lparr>files := fst ?l\<rparr>) = filter (\<lambda>(k, r). disk w (Path r) \<noteq> None) ?es"
    using r by (simp add: records_def emit_def)
  moreover have "disk ((snd ?l)\<lparr>files := fst ?l\<rparr>) = disk w \<and> snapshot ((snd ?l)\<lparr>files := fst ?l\<rparr>) = snapshot w"
    using load_loop_frame [of ?es "[]" ?w1] by (simp add: emit_def)
  ultimately show ?thesis using l by blast
qed

lemma loadMetadata_no_file:
  assumes "snapshot w = NoFile"
  shows "loadMetadata cfg w = Some (emit (EvIO ''ReadFile'' (MetadataFile cfg)) w)"
  using assms by (simp add: loadMetadata_def os_ReadFile_meta_def)

lemma saveMetadata_free:
  assumes "mu_free w"
  shows "saveMetadata cfg w = Done (meta_writable w)
           (mu_RUnlock (snd (os_WriteFile_meta cfg (marshal_files (records w))
              (emit EvRLock ((emit (EvCall ''saveMetadata'') w)\<lparr>readers := Suc (readers w)\<rparr>)))))"
  using assms
  by (simp add: saveMetadata_def mu_free_def mu_RLock_def os_WriteFile_meta_def emit_def records_def)

lemma rec1_ascii:
  "utf8_coerce ''ab'' = ''ab''" "utf8_coerce ''a.txt'' = ''a.txt''" "utf8_coerce ''text/plain'' = ''text/plain''"
  "utf8_coerce ''c0'' = ''c0''" "utf8_coerce ''pw'' = ''pw''" "utf8_coerce ''10.0.0.1'' = ''10.0.0.1''"
  "utf8_coerce ''work'' = ''work''" "utf8_coerce ''notes'' = ''notes''"
  "utf8_coerce ''files/ab_a.txt'' = ''files/ab_a.txt''"
  by (simp_all add: utf8_coerce_ascii)

lemma rec2_ascii:
  "utf8_coerce ''cd'' = ''cd''" "utf8_coerce ''b.bin'' = ''b.bin''"
  "utf8_coerce ''application/octet-stream'' = ''application/octet-stream''"
  "utf8_coerce ''c1'' = ''c1''" "utf8_coerce [] = []" "utf8_coerce ''10.0.0.2'' = ''10.0.0.2''"
  "utf8_coerce ''Work'' = ''Work''" "utf8_coerce ''x'' = ''x''" "utf8_coerce ''big NOTES'' = ''big NOTES''"
  "utf8_coerce ''files/cd_b.bin'' = ''files/cd_b.bin''"
  by (simp_all add: utf8_coerce_ascii)

lemma rec_utf8: "utf8_FileInfo rec1" "utf8_FileInfo rec2"
  by (simp_all add: utf8_FileInfo_def utf8_valid_def rec1_def rec2_def rec1_ascii rec2_ascii)

text \<open>
  C5, as the claim states it, fails for a record with a string that is not valid UTF-8.
  The record of \<open>w4\<close> has the password and the description FF (one byte each).
  saveMetadata succeeds; the start that loads the snapshot it wrote finds the file of
  the record and keeps the record, but with the password and the description EF BF BD
  (U+FFFD): the loaded record is not the one that was saved.
\<close>

theorem C5_invalid_utf8_is_not_restored:
  "mu_free w4 \<and> meta_writable w4
   \<and> records w4 = [(''ab'', rec3)]
   \<and> Password rec3 = [char_of (255 :: nat)] \<and> Description rec3 = [char_of (255 :: nat)]
   \<and> result_of (saveMetadata cfg0 w4) = Some True
   \<and> map_option records (NewFileManager cfg0 (world_of (saveMetadata cfg0 w4)))
       = Some [(''ab'', rec3\<lparr>Password := [char_of (239 :: nat), char_of (191 :: nat), char_of (189 :: nat)],
                              Description := [char_of (239 :: nat), char_of (191 :: nat), char_of (189 :: nat)]\<rparr>)]"
proof -
  have f: "mu_free w4" "meta_writable w4"
    by (simp_all add: mu_free_def w4_def w1_def w0_def)
  have r: "records w4 = [(''ab'', rec3)]"
    by (simp add: records_def w4_def w1_def w0_def)
  have p: "Password rec3 = [char_of (255 :: nat)]" "Description rec3 = [char_of (255 :: nat)]"
    by (simp_all add: rec3_def)
  note s = saveMetadata_free [OF f(1), of cfg0]
  have ok: "result_of (saveMetadata cfg0 w4) = Some True"
    using f(2) by (simp add: s result_of_def)
  let ?v = "(world_of (saveMetadata cfg0 w4))\<lparr>files := [], writer := False, readers := 0\<rparr>"
  have sn: "snapshot ?v = Doc (marshal_files [(''ab'', rec3)])"
    using f(2) by (simp add: s r world_of_def os_WriteFile_meta_def mu_RUnlock_def emit_def)
  have dk: "disk ?v = disk w4"
    by (simp add: s world_of_def os_WriteFile_meta_def mu_RUnlock_def emit_def)
  have d: "distinct (map (\<lambda>e. utf8_coerce (fst e)) [(''ab'', rec3)])"
    by simp
  obtain w' where l: "loadMetadata cfg0 ?v = Some w'"
      and rw: "records w' = filter (\<lambda>(k, r). disk ?v (Path r) \<noteq> None)
                 (map (\<lambda>(k, r). (utf8_coerce k, coerce_FileInfo r)) [(''ab'', rec3)])"
    using loadMetadata_doc [OF sn d, of cfg0] by blast
  have c: "coerce_FileInfo rec3
         = rec3\<lparr>Password := [char_of (239 :: nat), char_of (191 :: nat), char_of (189 :: nat)],
                Description := [char_of (239 :: nat), char_of (191 :: nat), char_of (189 :: nat)]\<rparr>"
    by (simp add: coerce_FileInfo_def rec3_def rec1_def rec1_ascii rec2_ascii utf8_coerce_ff replacement_char_def)
  have "records w' = [(''ab'', rec3\<lparr>Password := [char_of (239 :: nat), char_of (191 :: nat), char_of (189 :: nat)],
                              Description := [char_of (239 :: nat), char_of (191 :: nat), char_of (189 :: nat)]\<rparr>)]"
    unfolding rw dk by (simp add: c rec1_ascii) (simp add: rec3_def rec1_def w4_def w1_def w0_def)
  then show ?thesis
    using f r p ok l by (simp add: NewFileManager_def)
qed

text \<open>
  C5, amended: let saveMetadata run with the mutex free on a registry \<open>w\<close> whose
  snapshot file can be written. It succeeds and leaves the records as they are. Let the
  process then start (NewFileManager) in any state \<open>w'\<close> whose snapshot file is the
  one just written. When every id and every string of every record of \<open>w\<close> is valid
  UTF-8, the registry it loads holds the records of \<open>w\<close>, each with every field as
  it was, except those whose path holds no file on the disk of \<open>w'\<close>, which are
  dropped. In general (when the ids stay distinct as json.Marshal writes them) it holds
  the records of \<open>w\<close> with every string as json.Marshal wrote it, U+FFFD for each
  byte that is not valid UTF-8, except those whose path, so written, holds no file.
  When there is no snapshot file, the start succeeds with an empty registry.
\<close>

theorem C5_save_then_load:
  assumes "mu_free w" and "meta_writable w" and "distinct (map fst (files w))"
  shows "result_of (saveMetadata cfg w) = Some True
     \<and> records (world_of (saveMetadata cfg w)) = records w
     \<and> (snapshot w' = snapshot (world_of (saveMetadata cfg w))
          \<and> list_all (\<lambda>(k, r). utf8_valid k \<and> utf8_FileInfo r) (records w) \<longrightarrow>
          (\<exists>w''. NewFileManager cfg w' = Some w''
              \<and> records w'' = filter (\<lambda>(k, r). disk w' (Path r) \<noteq> None) (records w)))
     \<and> (snapshot w' = snapshot (world_of (saveMetadata cfg w))
          \<and> distinct (map (\<lambda>e. utf8_coerce (fst e)) (files w)) \<longrightarrow>
          (\<exists>w''. NewFileManager cfg w' = Some w''
              \<and> records w'' = filter (\<lambda>(k, r). disk w' (Path r) \<noteq> None)
                                 (map (\<lambda>(k, r). (utf8_coerce k, coerce_FileInfo r)) (records w))))
     \<and> (snapshot w' = NoFile \<longrightarrow> (\<exists>w''. NewFileManager cfg w' = Some w'' \<and> records w'' = []))"
proof (intro conjI impI)
  note s = saveMetadata_free [OF assms(1), of cfg]
  show "result_of (saveMetadata cfg w) = Some True"
    using assms(2) by (simp add: s result_of_def)
  show "records (world_of (saveMetadata cfg w)) = records w"
    by (simp add: s world_of_def records_def os_WriteFile_meta_def mu_RUnlock_def emit_def)
  have sn: "snapshot (world_of (saveMetadata cfg w)) = Doc (marshal_files (records w))"
    using assms(2) by (simp add: s world_of_def os_WriteFile_meta_def mu_RUnlock_def emit_def)
  have general: "\<exists>w''. NewFileManager cfg w' = Some w''
              \<and> records w'' = filter (\<lambda>(k, r). disk w' (Path r) \<noteq> None)
                                 (map (\<lambda>(k, r). (utf8_coerce k, coerce_FileInfo r)) (records w))"
    if same: "snapshot w' = snapshot (world_of (saveMetadata cfg w))"
      and dc: "distinct (map (\<lambda>e. utf8_coerce (fst e)) (files w))"
  proof -
    have a: "snapshot (w'\<lparr>files := [], writer := False, readers := 0\<rparr>) = Doc (marshal_files (records w))"
      using sn same by simp
    have dk: "distinct (map (\<lambda>e. utf8_coerce (fst e)) (records w))"
      using dc by (simp add: records_def comp_def case_prod_beta)
    show ?thesis
      using loadMetadata_doc [OF a dk, of cfg] by (auto simp: NewFileManager_def)
  qed
  {
    assume "snapshot w' = snapshot (world_of (saveMetadata cfg w))
          \<and> distinct (map (\<lambda>e. utf8_coerce (fst e)) (files w))"
    then show "\<exists>w''. NewFileManager cfg w' = Some w''
              \<and> records w'' = filter (\<lambda>(k, r). disk w' (Path r) \<noteq> None)
                                 (map (\<lambda>(k, r). (utf8_coerce k, coerce_FileInfo r)) (records w))"
      using general by blast
  }
  {
    assume v: "snapshot w' = snapshot (world_of (saveMetadata cfg w))
          \<and> list_all (\<lambda>(k, r). utf8_valid k \<and> utf8_FileInfo r) (records w)"
    have keys: "map (\<lambda>e. utf8_coerce (fst e)) (files w) = map fst (files w)"
    proof (rule map_cong [OF refl])
      fix e assume "e \<in> set (files w)"
      then have "(fst e, heap w (snd e)) \<in> set (records w)"
        by (force simp: records_def)
      then have "utf8_valid (fst e)"
        using v by (auto simp: list_all_iff)
      then show "utf8_coerce (fst e) = fst e"
        by (simp add: utf8_valid_def)
    qed
    have same: "map (\<lambda>(k, r). (utf8_coerce k, coerce_FileInfo r)) (records w) = records w"
      using v by (intro map_idI) (auto simp: list_all_iff utf8_valid_def coerce_FileInfo_valid)
    show "\<exists>w''. NewFileManager cfg w' = Some w''
              \<and> records w'' = filter (\<lambda>(k, r). disk w' (Path r) \<noteq> None) (records w)"
      using general [unfolded keys same] v assms(3) by blast
  }
  {
    assume "snapshot w' = NoFile"
    then have a: "snapshot (w'\<lparr>files := [], writer := False, readers := 0\<rparr>) = NoFile"
      by simp
    show "\<exists>w''. NewFileManager cfg w' = Some w'' \<and> records w'' = []"
      using loadMetadata_no_file [OF a, of cfg] by (simp add: NewFileManager_def records_def emit_def)
  }
qed

theorem C5_save_then_load_witness:
  "mu_free w2 \<and> meta_writable w2 \<and> distinct (map fst (files w2))
   \<and> list_all (\<lambda>(k, r). utf8_valid k \<and> utf8_FileInfo r) (records w2)
   \<and> result_of (saveMetadata cfg0 w2) = Some True
   \<and> (\<exists>w''. NewFileManager cfg0 ((world_of (saveMetadata cfg0 w2))\<lparr>disk := [''files/ab_a.txt'' \<mapsto> [1, 2]]\<rparr>) = Some w''
          \<and> records w'' = [(''ab'', rec1)])
   \<and> (\<exists>w''. NewFileManager cfg0 w0 = Some w'' \<and> records w'' = [])"
proof -
  have a: "mu_free w2" "meta_writable w2" "distinct (map fst (files w2))"
    by (simp_all add: mu_free_def w2_def w1_def w0_def)
  have b: "snapshot ((world_of (saveMetadata cfg0 w2))\<lparr>disk := [''files/ab_a.txt'' \<mapsto> [1, 2]]\<rparr>)
         = snapshot (world_of (saveMetadata cfg0 w2))"
      "snapshot w0 = NoFile" "records w2 = [(''ab'', rec1), (''cd'', rec2)]"
      "Path rec1 = ''files/ab_a.txt''" "Path rec2 = ''files/cd_b.bin''"
    by (simp_all add: w0_def records_def w2_facts rec1_def rec2_def)
  have v: "list_all (\<lambda>(k, r). utf8_valid k \<and> utf8_FileInfo r) (records w2)"
    by (simp add: b(3) rec_utf8 utf8_valid_def rec1_ascii rec2_ascii)
  show ?thesis
    using C5_save_then_load [OF a, of cfg0 "(world_of (saveMetadata cfg0 w2))\<lparr>disk := [''files/ab_a.txt'' \<mapsto> [1, 2]]\<rparr>"]
      C5_save_then_load [OF a, of cfg0 w0] a b v
    by simp
qed

subsection \<open>Records and their bytes\<close>







































text \<open>What bulkDelete and the sweep remove: the record, and the bytes at its path.\<close>

lemma bulk_loop_heap: "heap (snd (bulk_loop ids n w)) = heap w"
  by (induction ids arbitrary: n w) (auto simp: prims split: option.splits)








end
